theory Spec2Isabelle
  imports Main "HOL-Library.AList" "HOL-Library.Sublist"
begin

section \<open>Python strings\<close>

text \<open>
  A Python \<open>str\<close> is a sequence of Unicode code points. The model writes it as a
  \<open>string\<close> (a \<open>char list\<close>) and reads every \<open>char\<close> as the code point of the
  same number, so it covers the code points below 256. That is enough for the
  templates of \<open>code_generator.py\<close> (ASCII and a few accented Latin-1 letters) and for
  identifiers. \<open>len\<close> is \<open>length\<close>, \<open>+\<close> is \<open>@\<close>.
\<close>

text \<open>\<open>str.lower()\<close> on the code points below 256: the ASCII capitals and the
  Latin-1 capitals (192 to 222 without the multiplication sign 215) move up by 32.\<close>

definition lower_char :: "char \<Rightarrow> char" where
  "lower_char c =
     (let n = (of_char c :: nat) in
      if (65 \<le> n \<and> n \<le> 90) \<or> (192 \<le> n \<and> n \<le> 222 \<and> n \<noteq> 215)
      then char_of (n + 32) else c)"

definition lower :: "string \<Rightarrow> string" where
  "lower s = map lower_char s"

text \<open>\<open>s.endswith(suffix)\<close>.\<close>

definition endswith :: "string \<Rightarrow> string \<Rightarrow> bool" where
  "endswith s suf =
     (length suf \<le> length s \<and> drop (length s - length suf) s = suf)"

text \<open>\<open>sep.join(xs)\<close>.\<close>

fun join :: "string \<Rightarrow> string list \<Rightarrow> string" where
  "join sep [] = []"
| "join sep [x] = x"
| "join sep (x # y # ys) = x @ sep @ join sep (y # ys)"

text \<open>\<open>s.split(c)\<close> for a separator of one character. The result is never
  empty (\<open>''.split(c)\<close> is \<open>['']\<close>), so the first branch of the \<open>case\<close> is
  never taken.\<close>

fun split :: "char \<Rightarrow> string \<Rightarrow> string list" where
  "split sep [] = [[]]"
| "split sep (c # cs) =
     (if c = sep then [] # split sep cs
      else (case split sep cs of
              [] \<Rightarrow> [[c]]
            | piece # pieces \<Rightarrow> (c # piece) # pieces))"

text \<open>\<open>str.isspace\<close> on one code point below 256, and \<open>s.strip()\<close>, which drops
  such code points from both ends.\<close>

definition isspace :: "char \<Rightarrow> bool" where
  "isspace c =
     (let n = (of_char c :: nat) in
      (9 \<le> n \<and> n \<le> 13) \<or> (28 \<le> n \<and> n \<le> 32) \<or> n = 133 \<or> n = 160)"

definition strip :: "string \<Rightarrow> string" where
  "strip s = rev (dropWhile isspace (rev (dropWhile isspace s)))"

section \<open>The schema: \<open>code_generator.py\<close>, lines 8 to 43\<close>

text \<open>\<open>MIN\<close> and \<open>MAX\<close> are reserved words of the term language, so the two
  members of the enumeration are written \<open>MIN_VALUE\<close> and \<open>MAX_VALUE\<close>.\<close>

datatype ValidationType =
  REQUIRED | MIN_LENGTH | MAX_LENGTH | EMAIL | MIN_VALUE | MAX_VALUE | PATTERN

text \<open>The payload of a rule (\<open>value: Optional[any]\<close>): an integer or a text, as
  the examples of \<open>example_usage.py\<close> have it. Other payloads (a float, say) are
  outside the model.\<close>

datatype py_value = IntV int | StrV string

record ValidationRule =
  rule_type :: ValidationType
  rule_value :: "py_value option"
  message :: "string option"

record PropertyConfig =
  name :: string
  type :: string
  optional :: bool
  validation :: "ValidationRule list"

record GeneratorConfig =
  entity_name :: string
  properties :: "PropertyConfig list"
  include_cache :: bool
  include_validation :: bool
  architecture :: string

section \<open>The generator object and the derived names\<close>

record CodeGenerator =
  config :: GeneratorConfig
  entity_name_lower :: string
  entity_name_plural :: string

text \<open>\<open>CodeGenerator._pluralize\<close>, lines 89 to 95.\<close>

definition pluralize :: "string \<Rightarrow> string" where
  "pluralize word =
     (if endswith word ''y'' then butlast word @ ''ies''
      else if endswith word ''s'' \<or> endswith word ''x'' \<or> endswith word ''z''
      then word @ ''es''
      else word @ ''s'')"

text \<open>\<open>CodeGenerator.__init__\<close>, lines 49 to 52.\<close>

definition init :: "GeneratorConfig \<Rightarrow> CodeGenerator" where
  "init cfg =
     \<lparr>config = cfg,
      entity_name_lower = lower (entity_name cfg),
      entity_name_plural = pluralize (lower (entity_name cfg))\<rparr>"

section \<open>Python expressions of the templates, and the helper methods (lines 937 to 1016)\<close>

text \<open>\<open>x or y\<close> on an optional text: \<open>None\<close> and the empty text are falsy.\<close>

definition py_or :: "string option \<Rightarrow> string \<Rightarrow> string" where
  "py_or m d = (case m of None \<Rightarrow> d | Some s \<Rightarrow> if s = [] then d else s)"

text \<open>\<open>str(n)\<close> for an integer, in decimal, and \<open>str_value\<close>: what
  \<open>str(rule.value)\<close> and the field \<open>{rule.value}\<close> of an f-string give.\<close>

definition digit_char :: "nat \<Rightarrow> char" where
  "digit_char d = char_of (48 + d)"

fun str_nat :: "nat \<Rightarrow> string" where
  "str_nat n = (if n < 10 then [digit_char n] else str_nat (n div 10) @ [digit_char (n mod 10)])"

declare str_nat.simps [simp del]

definition str_int :: "int \<Rightarrow> string" where
  "str_int i = (if i < 0 then ''-'' @ str_nat (nat (- i)) else str_nat (nat i))"

definition str_value :: "py_value option \<Rightarrow> string" where
  "str_value v =
     (case v of None \<Rightarrow> ''None'' | Some (IntV i) \<Rightarrow> str_int i | Some (StrV s) \<Rightarrow> s)"

text \<open>\<open>_get_default_value\<close>, lines 937 to 952. The methods that never read
  \<open>self\<close> (\<open>_pluralize\<close>, \<open>_get_default_value\<close>, \<open>_indent_code\<close>) take no
  generator object here.\<close>

definition get_default_value :: "PropertyConfig \<Rightarrow> string" where
  "get_default_value prop =
     (if name prop = ''id'' then '' = 0''
      else if optional prop then ''''
      else if type prop = ''string'' then '' = '' @ [CHR 0x27, CHR 0x27]
      else if type prop = ''number'' then '' = 0''
      else if type prop = ''boolean'' then '' = false''
      else if type prop = ''Date'' then '' = new Date()''
      else '''')"

text \<open>\<open>_generate_dto_properties\<close>, lines 954 to 961. A loop that appends one
  line per property is a \<open>map\<close> over the properties.\<close>

definition generate_dto_properties :: "CodeGenerator \<Rightarrow> string" where
  "generate_dto_properties self =
     join ''\<newline>'' (map (\<lambda>prop.
       let opt = (if optional prop then ''?'' else '''');
           dto_type = (if type prop = ''Date'' then ''string'' else type prop)
       in ''  '' @ name prop @ opt @ '': '' @ dto_type @ '';'') (properties (config self)))"

text \<open>\<open>_generate_to_domain_mapping\<close>, lines 963 to 971.\<close>

definition generate_to_domain_mapping :: "CodeGenerator \<Rightarrow> string" where
  "generate_to_domain_mapping self =
     join '',\<newline>'' (map (\<lambda>prop.
       if type prop = ''Date'' then ''      new Date(dto.'' @ name prop @ '')''
       else ''      dto.'' @ name prop) (properties (config self)))"

text \<open>\<open>_generate_to_dto_mapping\<close>, lines 973 to 981.\<close>

definition generate_to_dto_mapping :: "CodeGenerator \<Rightarrow> string" where
  "generate_to_dto_mapping self =
     join '',\<newline>'' (map (\<lambda>prop.
       if type prop = ''Date'' then ''      '' @ name prop @ '': entity.'' @ name prop @ ''.toISOString()''
       else ''      '' @ name prop @ '': entity.'' @ name prop) (properties (config self)))"

text \<open>\<open>_get_create_params\<close>, lines 983 to 991: the loop skips the property
  named \<open>id\<close>.\<close>

definition get_create_params :: "CodeGenerator \<Rightarrow> string" where
  "get_create_params self =
     join '', '' (map (\<lambda>prop.
       let opt = (if optional prop then ''?'' else '''')
       in name prop @ opt @ '': '' @ type prop) (filter (\<lambda>prop. name prop \<noteq> ''id'') (properties (config self))))"

text \<open>\<open>_get_create_args\<close>, lines 993 to 1000.\<close>

definition get_create_args :: "CodeGenerator \<Rightarrow> string" where
  "get_create_args self =
     join '', '' (map name (filter (\<lambda>prop. name prop \<noteq> ''id'') (properties (config self))))"

text \<open>\<open>_get_entity_creation\<close>, lines 1002 to 1010.\<close>

definition get_entity_creation :: "CodeGenerator \<Rightarrow> string" where
  "get_entity_creation self =
     join '', '' (map (\<lambda>prop. if name prop = ''id'' then ''0'' else name prop)
       (properties (config self)))"

text \<open>\<open>_indent_code\<close>, lines 1012 to 1016: a line that holds a character other
  than white space gets the indent in front.\<close>

definition indent_code :: "string \<Rightarrow> nat \<Rightarrow> string" where
  "indent_code text level =
     (let indent = concat (replicate level ''  '');
          lines = split CHR ''\<newline>'' text
      in join ''\<newline>'' (map (\<lambda>line. if strip line \<noteq> [] then indent @ line else line) lines))"

section \<open>The fragments of the entity: lines 131 to 262\<close>

text \<open>
  A triple-quoted f-string is written as \<open>join ''\<newline>'' [...]\<close> with one element
  for each of its lines, in the order of the source; a replacement field stands
  where the source has it, and its value may itself hold several lines.
\<close>

text \<open>\<open>_generate_properties\<close>, lines 131 to 138.\<close>

definition generate_properties :: "CodeGenerator \<Rightarrow> string" where
  "generate_properties self =
     join ''\<newline>'' (map (\<lambda>prop.
       let opt = (if optional prop then ''?'' else '''');
           readonly = (if name prop = ''id'' then ''readonly '' else '''')
       in ''  public '' @ readonly @ name prop @ opt @ '': '' @ type prop @ '';'') (properties (config self)))"

text \<open>\<open>_generate_constructor_params\<close>, lines 140 to 147.\<close>

definition generate_constructor_params :: "CodeGenerator \<Rightarrow> string" where
  "generate_constructor_params self =
     join '',\<newline>'' (map (\<lambda>prop.
       let opt = (if optional prop then ''?'' else '''');
           default_value = get_default_value prop
       in ''    public '' @ name prop @ opt @ '': '' @ type prop @ default_value) (properties (config self)))"

text \<open>\<open>_generate_validations\<close>, lines 149 to 204. \<open>validation_check\<close> is the text
  that one pass of the inner loop appends to \<open>validation_code\<close> for a rule of a
  property; the two loops are the two folds.\<close>

definition validation_check :: "PropertyConfig \<Rightarrow> ValidationRule \<Rightarrow> string" where
  "validation_check prop rule =
     (case rule_type rule of
        REQUIRED \<Rightarrow>
          (if type prop = ''string'' then
             ''    if (!this.'' @ name prop @ '' || this.'' @ name prop @ ''.trim().length === 0) {\<newline>'' @
             ''      throw new Error('' @ [CHR 0x27] @ py_or (message rule) (name prop @ '' '' @ [CHR 0xE9] @ '' obrigat'' @ [CHR 0xF3] @ ''rio'') @ ''');\<newline>'' @
             ''    }\<newline>''
           else
             ''    if (this.'' @ name prop @ '' === undefined || this.'' @ name prop @ '' === null) {\<newline>'' @
             ''      throw new Error('' @ [CHR 0x27] @ py_or (message rule) (name prop @ '' '' @ [CHR 0xE9] @ '' obrigat'' @ [CHR 0xF3] @ ''rio'') @ ''');\<newline>'' @
             ''    }\<newline>'')
      | MIN_LENGTH \<Rightarrow>
          ''    if (this.'' @ name prop @ ''.length < '' @ str_value (rule_value rule) @ '') {\<newline>'' @
          ''      throw new Error('' @ [CHR 0x27] @ py_or (message rule) (name prop @ '' deve ter no m'' @ [CHR 0xED] @ ''nimo '' @ str_value (rule_value rule) @ '' caracteres'') @ ''');\<newline>'' @
          ''    }\<newline>''
      | MAX_LENGTH \<Rightarrow>
          ''    if (this.'' @ name prop @ ''.length > '' @ str_value (rule_value rule) @ '') {\<newline>'' @
          ''      throw new Error('' @ [CHR 0x27] @ py_or (message rule) (name prop @ '' deve ter no m'' @ [CHR 0xE1] @ ''ximo '' @ str_value (rule_value rule) @ '' caracteres'') @ ''');\<newline>'' @
          ''    }\<newline>''
      | EMAIL \<Rightarrow>
          ''    const emailRegex = /^[^'' @ [CHR 0x5C] @ ''s@]+@[^'' @ [CHR 0x5C] @ ''s@]+'' @ [CHR 0x5C] @ ''.[^'' @ [CHR 0x5C] @ ''s@]+$/;\<newline>'' @
          ''    if (!emailRegex.test(this.'' @ name prop @ '')) {\<newline>'' @
          ''      throw new Error('' @ [CHR 0x27] @ py_or (message rule) (name prop @ '' inv'' @ [CHR 0xE1] @ ''lido'') @ ''');\<newline>'' @
          ''    }\<newline>''
      | MIN_VALUE \<Rightarrow>
          ''    if (this.'' @ name prop @ '' < '' @ str_value (rule_value rule) @ '') {\<newline>'' @
          ''      throw new Error('' @ [CHR 0x27] @ py_or (message rule) (name prop @ '' deve ser maior ou igual a '' @ str_value (rule_value rule)) @ ''');\<newline>'' @
          ''    }\<newline>''
      | MAX_VALUE \<Rightarrow>
          ''    if (this.'' @ name prop @ '' > '' @ str_value (rule_value rule) @ '') {\<newline>'' @
          ''      throw new Error('' @ [CHR 0x27] @ py_or (message rule) (name prop @ '' deve ser menor ou igual a '' @ str_value (rule_value rule)) @ ''');\<newline>'' @
          ''    }\<newline>''
      | PATTERN \<Rightarrow>
          ''    const pattern = new RegExp('' @ [CHR 0x27] @ str_value (rule_value rule) @ ''');\<newline>'' @
          ''    if (!pattern.test(this.'' @ name prop @ '')) {\<newline>'' @
          ''      throw new Error('' @ [CHR 0x27] @ py_or (message rule) (name prop @ '' inv'' @ [CHR 0xE1] @ ''lido'') @ ''');\<newline>'' @
          ''    }\<newline>'')"

definition generate_validations :: "CodeGenerator \<Rightarrow> string" where
  "generate_validations self =
     (if \<not> include_validation (config self) then ''''
      else
        (let validation_code = ''private validate(): void {\<newline>'';
             validation_code =
               foldl (\<lambda>validation_code prop.
                  if validation prop = [] then validation_code
                  else foldl (\<lambda>validation_code rule.
                         validation_code @ validation_check prop rule)
                       validation_code (validation prop))
                 validation_code (properties (config self));
             validation_code = validation_code @ ''  }''
         in validation_code))"

text \<open>\<open>_generate_copy_method\<close>, lines 206 to 219.\<close>

definition generate_copy_method :: "CodeGenerator \<Rightarrow> string" where
  "generate_copy_method self =
     (let updates_params = join '', '' (map (\<lambda>p. name p @ ''?: '' @ type p) (properties (config self)));
          copy_args = join '',\<newline>      '' (map (\<lambda>p. ''updates.'' @ name p @ '' ?? this.'' @ name p) (properties (config self)))
      in join ''\<newline>'' [
           ''/**'',
           ''   * Cria uma c'' @ [CHR 0xF3] @ ''pia do objeto'',
           ''   */'',
           ''  copy(updates?: { '' @ updates_params @ '' }): '' @ entity_name (config self) @ '' {'',
           ''    if (!updates) updates = {};'',
           ''    return new '' @ entity_name (config self) @ ''('',
           ''      '' @ copy_args,
           ''    );'',
           ''  }''])"

text \<open>\<open>_generate_to_json_method\<close>, lines 221 to 242.\<close>

definition generate_to_json_method :: "CodeGenerator \<Rightarrow> string" where
  "generate_to_json_method self =
     (let json_fields = map (\<lambda>prop.
            if type prop = ''Date'' then
              (if optional prop then name prop @ '': this.'' @ name prop @ ''?.toISOString()''
               else name prop @ '': this.'' @ name prop @ ''.toISOString()'')
            else name prop @ '': this.'' @ name prop) (properties (config self));
          json_body = join '',\<newline>      '' json_fields
      in join ''\<newline>'' [
           ''/**'',
           ''   * Converte para objeto simples'',
           ''   */'',
           ''  toJson(): Record<string, Object> {'',
           ''    return {'',
           ''      '' @ json_body,
           ''    };'',
           ''  }''])"

text \<open>\<open>_generate_from_json_method\<close>, lines 244 to 262.\<close>

definition generate_from_json_method :: "CodeGenerator \<Rightarrow> string" where
  "generate_from_json_method self =
     (let from_json_args = map (\<lambda>prop.
            if type prop = ''Date'' then ''new Date(json.'' @ name prop @ '' as string)''
            else ''json.'' @ name prop @ '' as '' @ type prop) (properties (config self));
          from_json_body = join '',\<newline>      '' from_json_args
      in join ''\<newline>'' [
           ''/**'',
           ''   * Cria inst'' @ [CHR 0xE2] @ ''ncia a partir de JSON'',
           ''   */'',
           ''  static fromJson(json: Record<string, Object>): '' @ entity_name (config self) @ '' {'',
           ''    return new '' @ entity_name (config self) @ ''('',
           ''      '' @ from_json_body,
           ''    );'',
           ''  }''])"

section \<open>The generators of clean architecture: lines 101 to 821\<close>

text \<open>\<open>_generate_entity\<close>, lines 101 to 129.\<close>

definition generate_entity :: "CodeGenerator \<Rightarrow> string" where
  "generate_entity self =
     (let properties = generate_properties self;
          constructor_params = generate_constructor_params self;
          validations =
            (if include_validation (config self) then generate_validations self else '''');
          copy_method = generate_copy_method self;
          to_json_method = generate_to_json_method self;
          from_json_method = generate_from_json_method self;
          validation_call =
            (if include_validation (config self) then ''this.validate();'' else '''');
          validation_method =
            (if include_validation (config self) then ''\<newline>  '' @ validations @ ''\<newline>  '' else '''')
      in join ''\<newline>'' [
           ''// domain/entities/'' @ entity_name (config self) @ ''.ets'',
           '''',
           ''export class '' @ entity_name (config self) @ '' {'',
           properties,
           ''  '',
           ''  constructor('',
           constructor_params,
           ''  ) {'',
           ''    '' @ validation_call,
           ''  }'',
           ''  '' @ validation_method,
           indent_code copy_method 1,
           ''  '',
           indent_code to_json_method 1,
           ''  '',
           indent_code from_json_method 1,
           ''}''])"

text \<open>\<open>_generate_repository_interface\<close>, lines 264 to 276.\<close>

definition generate_repository_interface :: "CodeGenerator \<Rightarrow> string" where
  "generate_repository_interface self =
     join ''\<newline>'' [
       ''// domain/repositories/I'' @ entity_name (config self) @ ''Repository.ets'',
       '''',
       ''import { '' @ entity_name (config self) @ '' } from '../entities/'' @ entity_name (config self) @ ''';'',
       '''',
       ''export interface I'' @ entity_name (config self) @ ''Repository {'',
       ''  get'' @ entity_name_plural self @ ''(): Promise<'' @ entity_name (config self) @ ''[]>;'',
       ''  get'' @ entity_name (config self) @ ''ById(id: number): Promise<'' @ entity_name (config self) @ ''>;'',
       ''  create'' @ entity_name (config self) @ ''(entity: '' @ entity_name (config self) @ ''): Promise<'' @ entity_name (config self) @ ''>;'',
       ''  update'' @ entity_name (config self) @ ''(entity: '' @ entity_name (config self) @ ''): Promise<'' @ entity_name (config self) @ ''>;'',
       ''  delete'' @ entity_name (config self) @ ''(id: number): Promise<void>;'',
       ''}'']"

text \<open>\<open>_generate_get_all_usecase\<close>, lines 278 to 291.\<close>

definition generate_get_all_usecase :: "CodeGenerator \<Rightarrow> string" where
  "generate_get_all_usecase self =
     join ''\<newline>'' [
       ''// domain/usecases/'' @ entity_name_lower self @ ''/Get'' @ entity_name_plural self @ ''UseCase.ets'',
       '''',
       ''import { '' @ entity_name (config self) @ '' } from '../../entities/'' @ entity_name (config self) @ ''';'',
       ''import { I'' @ entity_name (config self) @ ''Repository } from '../../repositories/I'' @ entity_name (config self) @ ''Repository';'',
       '''',
       ''export class Get'' @ entity_name_plural self @ ''UseCase {'',
       ''  constructor(private repository: I'' @ entity_name (config self) @ ''Repository) {}'',
       ''  '',
       ''  async execute(): Promise<'' @ entity_name (config self) @ ''[]> {'',
       ''    return await this.repository.get'' @ entity_name_plural self @ ''();'',
       ''  }'',
       ''}'']"

text \<open>\<open>_generate_get_by_id_usecase\<close>, lines 293 to 309.\<close>

definition generate_get_by_id_usecase :: "CodeGenerator \<Rightarrow> string" where
  "generate_get_by_id_usecase self =
     join ''\<newline>'' [
       ''// domain/usecases/'' @ entity_name_lower self @ ''/Get'' @ entity_name (config self) @ ''ByIdUseCase.ets'',
       '''',
       ''import { '' @ entity_name (config self) @ '' } from '../../entities/'' @ entity_name (config self) @ ''';'',
       ''import { I'' @ entity_name (config self) @ ''Repository } from '../../repositories/I'' @ entity_name (config self) @ ''Repository';'',
       '''',
       ''export class Get'' @ entity_name (config self) @ ''ByIdUseCase {'',
       ''  constructor(private repository: I'' @ entity_name (config self) @ ''Repository) {}'',
       ''  '',
       ''  async execute(id: number): Promise<'' @ entity_name (config self) @ ''> {'',
       ''    if (id <= 0) {'',
       ''      throw new Error('ID inv'' @ [CHR 0xE1] @ ''lido');'',
       ''    }'',
       ''    return await this.repository.get'' @ entity_name (config self) @ ''ById(id);'',
       ''  }'',
       ''}'']"

text \<open>\<open>_generate_create_usecase\<close>, lines 311 to 328.\<close>

definition generate_create_usecase :: "CodeGenerator \<Rightarrow> string" where
  "generate_create_usecase self =
     (let params = get_create_params self;
          entity_creation = get_entity_creation self
      in join ''\<newline>'' [
           ''// domain/usecases/'' @ entity_name_lower self @ ''/Create'' @ entity_name (config self) @ ''UseCase.ets'',
           '''',
           ''import { '' @ entity_name (config self) @ '' } from '../../entities/'' @ entity_name (config self) @ ''';'',
           ''import { I'' @ entity_name (config self) @ ''Repository } from '../../repositories/I'' @ entity_name (config self) @ ''Repository';'',
           '''',
           ''export class Create'' @ entity_name (config self) @ ''UseCase {'',
           ''  constructor(private repository: I'' @ entity_name (config self) @ ''Repository) {}'',
           ''  '',
           ''  async execute('' @ params @ ''): Promise<'' @ entity_name (config self) @ ''> {'',
           ''    const entity = new '' @ entity_name (config self) @ ''('' @ entity_creation @ '');'',
           ''    return await this.repository.create'' @ entity_name (config self) @ ''(entity);'',
           ''  }'',
           ''}''])"

text \<open>\<open>_generate_update_usecase\<close>, lines 330 to 345.\<close>

definition generate_update_usecase :: "CodeGenerator \<Rightarrow> string" where
  "generate_update_usecase self =
     join ''\<newline>'' [
       ''// domain/usecases/'' @ entity_name_lower self @ ''/Update'' @ entity_name (config self) @ ''UseCase.ets'',
       '''',
       ''import { '' @ entity_name (config self) @ '' } from '../../entities/'' @ entity_name (config self) @ ''';'',
       ''import { I'' @ entity_name (config self) @ ''Repository } from '../../repositories/I'' @ entity_name (config self) @ ''Repository';'',
       '''',
       ''export class Update'' @ entity_name (config self) @ ''UseCase {'',
       ''  constructor(private repository: I'' @ entity_name (config self) @ ''Repository) {}'',
       ''  '',
       ''  async execute(id: number, updates: Partial<'' @ entity_name (config self) @ ''>): Promise<'' @ entity_name (config self) @ ''> {'',
       ''    const existing = await this.repository.get'' @ entity_name (config self) @ ''ById(id);'',
       ''    const updated = existing.copy(updates);'',
       ''    return await this.repository.update'' @ entity_name (config self) @ ''(updated);'',
       ''  }'',
       ''}'']"

text \<open>\<open>_generate_delete_usecase\<close>, lines 347 to 362.\<close>

definition generate_delete_usecase :: "CodeGenerator \<Rightarrow> string" where
  "generate_delete_usecase self =
     join ''\<newline>'' [
       ''// domain/usecases/'' @ entity_name_lower self @ ''/Delete'' @ entity_name (config self) @ ''UseCase.ets'',
       '''',
       ''import { I'' @ entity_name (config self) @ ''Repository } from '../../repositories/I'' @ entity_name (config self) @ ''Repository';'',
       '''',
       ''export class Delete'' @ entity_name (config self) @ ''UseCase {'',
       ''  constructor(private repository: I'' @ entity_name (config self) @ ''Repository) {}'',
       ''  '',
       ''  async execute(id: number): Promise<void> {'',
       ''    if (id <= 0) {'',
       ''      throw new Error('ID inv'' @ [CHR 0xE1] @ ''lido');'',
       ''    }'',
       ''    await this.repository.delete'' @ entity_name (config self) @ ''(id);'',
       ''  }'',
       ''}'']"

text \<open>\<open>_generate_model\<close>, lines 364 to 398.\<close>

definition generate_model :: "CodeGenerator \<Rightarrow> string" where
  "generate_model self =
     (let dto_properties = generate_dto_properties self;
          to_domain_mapping = generate_to_domain_mapping self;
          to_dto_mapping = generate_to_dto_mapping self
      in join ''\<newline>'' [
           ''// data/models/'' @ entity_name (config self) @ ''Model.ets'',
           '''',
           ''import { '' @ entity_name (config self) @ '' } from '../../domain/entities/'' @ entity_name (config self) @ ''';'',
           '''',
           ''export interface '' @ entity_name (config self) @ ''DTO {'',
           dto_properties,
           ''}'',
           '''',
           ''export class '' @ entity_name (config self) @ ''Mapper {'',
           ''  static toDomain(dto: '' @ entity_name (config self) @ ''DTO): '' @ entity_name (config self) @ '' {'',
           ''    return new '' @ entity_name (config self) @ ''('',
           to_domain_mapping,
           ''    );'',
           ''  }'',
           ''  '',
           ''  static toDTO(entity: '' @ entity_name (config self) @ ''): '' @ entity_name (config self) @ ''DTO {'',
           ''    return {'',
           to_dto_mapping,
           ''    };'',
           ''  }'',
           ''  '',
           ''  static toDomainList(dtos: '' @ entity_name (config self) @ ''DTO[]): '' @ entity_name (config self) @ ''[] {'',
           ''    return dtos.map(dto => this.toDomain(dto));'',
           ''  }'',
           ''  '',
           ''  static toDTOList(entities: '' @ entity_name (config self) @ ''[]): '' @ entity_name (config self) @ ''DTO[] {'',
           ''    return entities.map(entity => this.toDTO(entity));'',
           ''  }'',
           ''}''])"

text \<open>\<open>_generate_remote_datasource_interface\<close>, lines 400 to 412.\<close>

definition generate_remote_datasource_interface :: "CodeGenerator \<Rightarrow> string" where
  "generate_remote_datasource_interface self =
     join ''\<newline>'' [
       ''// data/datasources/I'' @ entity_name (config self) @ ''RemoteDataSource.ets'',
       '''',
       ''import { '' @ entity_name (config self) @ ''DTO } from '../models/'' @ entity_name (config self) @ ''Model';'',
       '''',
       ''export interface I'' @ entity_name (config self) @ ''RemoteDataSource {'',
       ''  fetch'' @ entity_name_plural self @ ''(): Promise<'' @ entity_name (config self) @ ''DTO[]>;'',
       ''  fetch'' @ entity_name (config self) @ ''ById(id: number): Promise<'' @ entity_name (config self) @ ''DTO>;'',
       ''  create'' @ entity_name (config self) @ ''(dto: '' @ entity_name (config self) @ ''DTO): Promise<'' @ entity_name (config self) @ ''DTO>;'',
       ''  update'' @ entity_name (config self) @ ''(dto: '' @ entity_name (config self) @ ''DTO): Promise<'' @ entity_name (config self) @ ''DTO>;'',
       ''  delete'' @ entity_name (config self) @ ''(id: number): Promise<void>;'',
       ''}'']"

text \<open>\<open>_generate_remote_datasource_impl\<close>, lines 414 to 488.\<close>

definition generate_remote_datasource_impl :: "CodeGenerator \<Rightarrow> string" where
  "generate_remote_datasource_impl self =
     join ''\<newline>'' [
       ''// data/datasources/'' @ entity_name (config self) @ ''RemoteDataSourceImpl.ets'',
       '''',
       ''import http from '@ohos.net.http';'',
       ''import { '' @ entity_name (config self) @ ''DTO } from '../models/'' @ entity_name (config self) @ ''Model';'',
       ''import { I'' @ entity_name (config self) @ ''RemoteDataSource } from './I'' @ entity_name (config self) @ ''RemoteDataSource';'',
       '''',
       ''export class '' @ entity_name (config self) @ ''RemoteDataSourceImpl implements I'' @ entity_name (config self) @ ''RemoteDataSource {'',
       ''  private baseUrl: string = 'https://api.example.com';'',
       ''  private endpoint: string = '/'' @ entity_name_lower self @ ''s';'',
       ''  '',
       ''  async fetch'' @ entity_name_plural self @ ''(): Promise<'' @ entity_name (config self) @ ''DTO[]> {'',
       ''    const response = await this.makeRequest<{ data: '' @ entity_name (config self) @ ''DTO[] }>('',
       ''      this.endpoint,'',
       ''      'GET'' @ [CHR 0x27],
       ''    );'',
       ''    return response.data;'',
       ''  }'',
       ''  '',
       ''  async fetch'' @ entity_name (config self) @ ''ById(id: number): Promise<'' @ entity_name (config self) @ ''DTO> {'',
       ''    const response = await this.makeRequest<{ data: '' @ entity_name (config self) @ ''DTO }>('',
       ''      `${this.endpoint}/${id}`,'',
       ''      'GET'' @ [CHR 0x27],
       ''    );'',
       ''    return response.data;'',
       ''  }'',
       ''  '',
       ''  async create'' @ entity_name (config self) @ ''(dto: '' @ entity_name (config self) @ ''DTO): Promise<'' @ entity_name (config self) @ ''DTO> {'',
       ''    const response = await this.makeRequest<{ data: '' @ entity_name (config self) @ ''DTO }>('',
       ''      this.endpoint,'',
       ''      'POST','',
       ''      dto'',
       ''    );'',
       ''    return response.data;'',
       ''  }'',
       ''  '',
       ''  async update'' @ entity_name (config self) @ ''(dto: '' @ entity_name (config self) @ ''DTO): Promise<'' @ entity_name (config self) @ ''DTO> {'',
       ''    const response = await this.makeRequest<{ data: '' @ entity_name (config self) @ ''DTO }>('',
       ''      `${this.endpoint}/${dto.id}`,'',
       ''      'PUT','',
       ''      dto'',
       ''    );'',
       ''    return response.data;'',
       ''  }'',
       ''  '',
       ''  async delete'' @ entity_name (config self) @ ''(id: number): Promise<void> {'',
       ''    await this.makeRequest<void>(`${this.endpoint}/${id}`, 'DELETE');'',
       ''  }'',
       ''  '',
       ''  private async makeRequest<T>('',
       ''    endpoint: string,'',
       ''    method: string,'',
       ''    body?: Object'',
       ''  ): Promise<T> {'',
       ''    return new Promise((resolve, reject) => {'',
       ''      const httpRequest = http.createHttp();'',
       ''      '',
       ''      httpRequest.request(`${this.baseUrl}${endpoint}`, {'',
       ''        method: method as http.RequestMethod,'',
       ''        header: { 'Content-Type': 'application/json' },'',
       ''        extraData: body ? JSON.stringify(body) : undefined,'',
       ''        connectTimeout: 30000,'',
       ''        readTimeout: 30000,'',
       ''      }, (err, data) => {'',
       ''        if (!err && (data.responseCode === 200 || data.responseCode === 201)) {'',
       ''          resolve(JSON.parse(data.result as string) as T);'',
       ''        } else {'',
       ''          reject(new Error(err?.message || 'Request failed'));'',
       ''        }'',
       ''        httpRequest.destroy();'',
       ''      });'',
       ''    });'',
       ''  }'',
       ''}'']"

text \<open>\<open>_generate_local_datasource_interface\<close>, lines 490 to 500.\<close>

definition generate_local_datasource_interface :: "CodeGenerator \<Rightarrow> string" where
  "generate_local_datasource_interface self =
     join ''\<newline>'' [
       ''// data/datasources/I'' @ entity_name (config self) @ ''LocalDataSource.ets'',
       '''',
       ''import { '' @ entity_name (config self) @ ''DTO } from '../models/'' @ entity_name (config self) @ ''Model';'',
       '''',
       ''export interface I'' @ entity_name (config self) @ ''LocalDataSource {'',
       ''  getCached'' @ entity_name_plural self @ ''(): Promise<'' @ entity_name (config self) @ ''DTO[]>;'',
       ''  cache'' @ entity_name_plural self @ ''(dtos: '' @ entity_name (config self) @ ''DTO[]): Promise<void>;'',
       ''  clearCache(): Promise<void>;'',
       ''}'']"

text \<open>\<open>_generate_local_datasource_impl\<close>, lines 502 to 544.\<close>

definition generate_local_datasource_impl :: "CodeGenerator \<Rightarrow> string" where
  "generate_local_datasource_impl self =
     join ''\<newline>'' [
       ''// data/datasources/'' @ entity_name (config self) @ ''LocalDataSourceImpl.ets'',
       '''',
       ''import preferences from '@ohos.data.preferences';'',
       ''import { '' @ entity_name (config self) @ ''DTO } from '../models/'' @ entity_name (config self) @ ''Model';'',
       ''import { I'' @ entity_name (config self) @ ''LocalDataSource } from './I'' @ entity_name (config self) @ ''LocalDataSource';'',
       '''',
       ''export class '' @ entity_name (config self) @ ''LocalDataSourceImpl implements I'' @ entity_name (config self) @ ''LocalDataSource {'',
       ''  private readonly CACHE_KEY = '' @ [CHR 0x27] @ entity_name_lower self @ ''_cache';'',
       ''  private preferencesStore?: preferences.Preferences;'',
       ''  '',
       ''  async initialize(context: Context): Promise<void> {'',
       ''    this.preferencesStore = await preferences.getPreferences(context, 'app_cache');'',
       ''  }'',
       ''  '',
       ''  async getCached'' @ entity_name_plural self @ ''(): Promise<'' @ entity_name (config self) @ ''DTO[]> {'',
       ''    if (!this.preferencesStore) {'',
       ''      throw new Error('DataSource not initialized');'',
       ''    }'',
       ''    '',
       ''    const cached = await this.preferencesStore.get(this.CACHE_KEY, '[]');'',
       ''    return JSON.parse(cached as string) as '' @ entity_name (config self) @ ''DTO[];'',
       ''  }'',
       ''  '',
       ''  async cache'' @ entity_name_plural self @ ''(dtos: '' @ entity_name (config self) @ ''DTO[]): Promise<void> {'',
       ''    if (!this.preferencesStore) {'',
       ''      throw new Error('DataSource not initialized');'',
       ''    }'',
       ''    '',
       ''    await this.preferencesStore.put(this.CACHE_KEY, JSON.stringify(dtos));'',
       ''    await this.preferencesStore.flush();'',
       ''  }'',
       ''  '',
       ''  async clearCache(): Promise<void> {'',
       ''    if (!this.preferencesStore) {'',
       ''      throw new Error('DataSource not initialized');'',
       ''    }'',
       ''    '',
       ''    await this.preferencesStore.delete(this.CACHE_KEY);'',
       ''    await this.preferencesStore.flush();'',
       ''  }'',
       ''}'']"

text \<open>\<open>_generate_repository_impl\<close>, lines 546 to 605. The four \<open>cache_*\<close>
  variables start empty and are assigned under \<open>include_cache\<close>; \<open>cache_logic\<close> is
  assigned on both branches and \<open>cache_constructor_assign\<close> on none.\<close>

definition cache_import_text :: "CodeGenerator \<Rightarrow> string" where
  "cache_import_text self =
     ''import { I'' @ entity_name (config self) @ ''LocalDataSource } from '../datasources/I'' @ entity_name (config self) @ ''LocalDataSource';''"

definition cache_constructor_param_text :: "CodeGenerator \<Rightarrow> string" where
  "cache_constructor_param_text self =
     join ''\<newline>'' [
       '','',
       ''    private localDataSource: I'' @ entity_name (config self) @ ''LocalDataSource'']"

definition cache_logic_with_cache :: "CodeGenerator \<Rightarrow> string" where
  "cache_logic_with_cache self =
     join ''\<newline>'' [
       ''try {'',
       ''      const dtos = await this.remoteDataSource.fetch'' @ entity_name_plural self @ ''();'',
       ''      await this.localDataSource.cache'' @ entity_name_plural self @ ''(dtos);'',
       ''      return '' @ entity_name (config self) @ ''Mapper.toDomainList(dtos);'',
       ''    } catch (error) {'',
       ''      const cachedDtos = await this.localDataSource.getCached'' @ entity_name_plural self @ ''();'',
       ''      return '' @ entity_name (config self) @ ''Mapper.toDomainList(cachedDtos);'',
       ''    }'']"

definition cache_logic_without_cache :: "CodeGenerator \<Rightarrow> string" where
  "cache_logic_without_cache self =
     join ''\<newline>'' [
       ''const dtos = await this.remoteDataSource.fetch'' @ entity_name_plural self @ ''();'',
       ''    return '' @ entity_name (config self) @ ''Mapper.toDomainList(dtos);'']"

definition generate_repository_impl :: "CodeGenerator \<Rightarrow> string" where
  "generate_repository_impl self =
     (let cache_import =
            (if include_cache (config self) then cache_import_text self else '''');
          cache_constructor_param =
            (if include_cache (config self) then cache_constructor_param_text self else '''');
          cache_logic =
            (if include_cache (config self) then cache_logic_with_cache self
             else cache_logic_without_cache self)
      in join ''\<newline>'' [
           ''// data/repositories/'' @ entity_name (config self) @ ''RepositoryImpl.ets'',
           '''',
           ''import { '' @ entity_name (config self) @ '' } from '../../domain/entities/'' @ entity_name (config self) @ ''';'',
           ''import { I'' @ entity_name (config self) @ ''Repository } from '../../domain/repositories/I'' @ entity_name (config self) @ ''Repository';'',
           ''import { '' @ entity_name (config self) @ ''Mapper } from '../models/'' @ entity_name (config self) @ ''Model';'',
           ''import { I'' @ entity_name (config self) @ ''RemoteDataSource } from '../datasources/I'' @ entity_name (config self) @ ''RemoteDataSource';'',
           cache_import,
           '''',
           ''export class '' @ entity_name (config self) @ ''RepositoryImpl implements I'' @ entity_name (config self) @ ''Repository {'',
           ''  constructor('',
           ''    private remoteDataSource: I'' @ entity_name (config self) @ ''RemoteDataSource'' @ cache_constructor_param,
           ''  ) {}'',
           ''  '',
           ''  async get'' @ entity_name_plural self @ ''(): Promise<'' @ entity_name (config self) @ ''[]> {'',
           ''    '' @ cache_logic,
           ''  }'',
           ''  '',
           ''  async get'' @ entity_name (config self) @ ''ById(id: number): Promise<'' @ entity_name (config self) @ ''> {'',
           ''    const dto = await this.remoteDataSource.fetch'' @ entity_name (config self) @ ''ById(id);'',
           ''    return '' @ entity_name (config self) @ ''Mapper.toDomain(dto);'',
           ''  }'',
           ''  '',
           ''  async create'' @ entity_name (config self) @ ''(entity: '' @ entity_name (config self) @ ''): Promise<'' @ entity_name (config self) @ ''> {'',
           ''    const dto = '' @ entity_name (config self) @ ''Mapper.toDTO(entity);'',
           ''    const createdDto = await this.remoteDataSource.create'' @ entity_name (config self) @ ''(dto);'',
           ''    return '' @ entity_name (config self) @ ''Mapper.toDomain(createdDto);'',
           ''  }'',
           ''  '',
           ''  async update'' @ entity_name (config self) @ ''(entity: '' @ entity_name (config self) @ ''): Promise<'' @ entity_name (config self) @ ''> {'',
           ''    const dto = '' @ entity_name (config self) @ ''Mapper.toDTO(entity);'',
           ''    const updatedDto = await this.remoteDataSource.update'' @ entity_name (config self) @ ''(dto);'',
           ''    return '' @ entity_name (config self) @ ''Mapper.toDomain(updatedDto);'',
           ''  }'',
           ''  '',
           ''  async delete'' @ entity_name (config self) @ ''(id: number): Promise<void> {'',
           ''    await this.remoteDataSource.delete'' @ entity_name (config self) @ ''(id);'',
           ''  }'',
           ''}''])"

text \<open>\<open>_generate_viewmodel\<close>, lines 607 to 703.\<close>

definition generate_viewmodel :: "CodeGenerator \<Rightarrow> string" where
  "generate_viewmodel self =
     join ''\<newline>'' [
       ''// presentation/viewmodels/'' @ entity_name (config self) @ ''ViewModel.ets'',
       '''',
       ''import { BaseViewModel } from './base/BaseViewModel';'',
       ''import { '' @ entity_name (config self) @ '' } from '../../domain/entities/'' @ entity_name (config self) @ ''';'',
       ''import { Get'' @ entity_name_plural self @ ''UseCase } from '../../domain/usecases/'' @ entity_name_lower self @ ''/Get'' @ entity_name_plural self @ ''UseCase';'',
       ''import { Get'' @ entity_name (config self) @ ''ByIdUseCase } from '../../domain/usecases/'' @ entity_name_lower self @ ''/Get'' @ entity_name (config self) @ ''ByIdUseCase';'',
       ''import { Create'' @ entity_name (config self) @ ''UseCase } from '../../domain/usecases/'' @ entity_name_lower self @ ''/Create'' @ entity_name (config self) @ ''UseCase';'',
       ''import { Update'' @ entity_name (config self) @ ''UseCase } from '../../domain/usecases/'' @ entity_name_lower self @ ''/Update'' @ entity_name (config self) @ ''UseCase';'',
       ''import { Delete'' @ entity_name (config self) @ ''UseCase } from '../../domain/usecases/'' @ entity_name_lower self @ ''/Delete'' @ entity_name (config self) @ ''UseCase';'',
       '''',
       ''@Observed'',
       ''export class '' @ entity_name (config self) @ ''ViewModel extends BaseViewModel {'',
       ''  @State '' @ entity_name_lower self @ ''s: '' @ entity_name (config self) @ ''[] = [];'',
       ''  @State selected'' @ entity_name (config self) @ '': '' @ entity_name (config self) @ '' | null = null;'',
       ''  '',
       ''  constructor('',
       ''    private get'' @ entity_name_plural self @ ''UseCase: Get'' @ entity_name_plural self @ ''UseCase,'',
       ''    private get'' @ entity_name (config self) @ ''ByIdUseCase: Get'' @ entity_name (config self) @ ''ByIdUseCase,'',
       ''    private create'' @ entity_name (config self) @ ''UseCase: Create'' @ entity_name (config self) @ ''UseCase,'',
       ''    private update'' @ entity_name (config self) @ ''UseCase: Update'' @ entity_name (config self) @ ''UseCase,'',
       ''    private delete'' @ entity_name (config self) @ ''UseCase: Delete'' @ entity_name (config self) @ ''UseCase'',
       ''  ) {'',
       ''    super();'',
       ''  }'',
       ''  '',
       ''  async load'' @ entity_name_plural self @ ''(): Promise<void> {'',
       ''    await this.executeUseCase('',
       ''      () => this.get'' @ entity_name_plural self @ ''UseCase.execute(),'',
       ''      (result) => {'',
       ''        this.'' @ entity_name_lower self @ ''s = result;'',
       ''      }'',
       ''    );'',
       ''  }'',
       ''  '',
       ''  async load'' @ entity_name (config self) @ ''ById(id: number): Promise<void> {'',
       ''    await this.executeUseCase('',
       ''      () => this.get'' @ entity_name (config self) @ ''ByIdUseCase.execute(id),'',
       ''      (result) => {'',
       ''        this.selected'' @ entity_name (config self) @ '' = result;'',
       ''      }'',
       ''    );'',
       ''  }'',
       ''  '',
       ''  async create'' @ entity_name (config self) @ ''('' @ get_create_params self @ ''): Promise<boolean> {'',
       ''    let success = false;'',
       ''    await this.executeUseCase('',
       ''      () => this.create'' @ entity_name (config self) @ ''UseCase.execute('' @ get_create_args self @ ''),'',
       ''      (result) => {'',
       ''        this.'' @ entity_name_lower self @ ''s.push(result);'',
       ''        success = true;'',
       ''      }'',
       ''    );'',
       ''    return success;'',
       ''  }'',
       ''  '',
       ''  async update'' @ entity_name (config self) @ ''(id: number, updates: Partial<'' @ entity_name (config self) @ ''>): Promise<boolean> {'',
       ''    let success = false;'',
       ''    await this.executeUseCase('',
       ''      () => this.update'' @ entity_name (config self) @ ''UseCase.execute(id, updates),'',
       ''      (result) => {'',
       ''        const index = this.'' @ entity_name_lower self @ ''s.findIndex(e => e.id === id);'',
       ''        if (index !== -1) {'',
       ''          this.'' @ entity_name_lower self @ ''s[index] = result;'',
       ''        }'',
       ''        success = true;'',
       ''      }'',
       ''    );'',
       ''    return success;'',
       ''  }'',
       ''  '',
       ''  async delete'' @ entity_name (config self) @ ''(id: number): Promise<boolean> {'',
       ''    let success = false;'',
       ''    await this.executeUseCase('',
       ''      () => this.delete'' @ entity_name (config self) @ ''UseCase.execute(id),'',
       ''      () => {'',
       ''        this.'' @ entity_name_lower self @ ''s = this.'' @ entity_name_lower self @ ''s.filter(e => e.id !== id);'',
       ''        success = true;'',
       ''      }'',
       ''    );'',
       ''    return success;'',
       ''  }'',
       ''  '',
       ''  select'' @ entity_name (config self) @ ''(entity: '' @ entity_name (config self) @ ''): void {'',
       ''    this.selected'' @ entity_name (config self) @ '' = entity;'',
       ''  }'',
       ''  '',
       ''  clearSelected(): void {'',
       ''    this.selected'' @ entity_name (config self) @ '' = null;'',
       ''  }'',
       ''  '',
       ''  onDestroy(): void {'',
       ''    this.'' @ entity_name_lower self @ ''s = [];'',
       ''    this.selected'' @ entity_name (config self) @ '' = null;'',
       ''  }'',
       ''}'']"

text \<open>\<open>_generate_page\<close>, lines 705 to 821. \<open>next((p for p in ... if ...), None)\<close>
  is \<open>find\<close>.\<close>

definition generate_page :: "CodeGenerator \<Rightarrow> string" where
  "generate_page self =
     (let first_prop =
            find (\<lambda>p. type p = ''string'' \<and> name p \<noteq> ''id'') (properties (config self));
          second_prop =
            find (\<lambda>p. type p = ''string'' \<and> name p \<noteq> ''id''
                        \<and> name p \<noteq> (case first_prop of Some fp \<Rightarrow> name fp | None \<Rightarrow> ''''))
              (properties (config self));
          first_display = (case first_prop of Some fp \<Rightarrow> name fp | None \<Rightarrow> ''name'');
          second_display_code =
            (case second_prop of
               Some sp \<Rightarrow> join ''\<newline>'' [
                                       '''',
                                       ''        Text(entity.'' @ name sp @ '')'',
                                       ''          .fontSize(14)'',
                                       ''          .fontColor($r('app.color.text_secondary'))'']
             | None \<Rightarrow> '''')
      in join ''\<newline>'' [
           ''// presentation/views/pages/'' @ entity_name (config self) @ ''Page.ets'',
           '''',
           ''import { '' @ entity_name (config self) @ ''ViewModel } from '../../viewmodels/'' @ entity_name (config self) @ ''ViewModel';'',
           ''import { '' @ entity_name (config self) @ '' } from '../../../domain/entities/'' @ entity_name (config self) @ ''';'',
           ''import { AppContainer } from '../../../di/AppContainer';'',
           ''import promptAction from '@ohos.promptAction';'',
           '''',
           ''@Entry'',
           ''@Component'',
           ''struct '' @ entity_name (config self) @ ''Page {'',
           ''  private container: AppContainer = AppContainer.getInstance();'',
           ''  @State private viewModel: '' @ entity_name (config self) @ ''ViewModel = this.container.create'' @ entity_name (config self) @ ''ViewModel();'',
           ''  '',
           ''  aboutToAppear() {'',
           ''    this.viewModel.load'' @ entity_name_plural self @ ''();'',
           ''  }'',
           ''  '',
           ''  aboutToDisappear() {'',
           ''    this.viewModel.onDestroy();'',
           ''  }'',
           ''  '',
           ''  @Builder'',
           ''  '' @ entity_name (config self) @ ''ListItem(entity: '' @ entity_name (config self) @ '') {'',
           ''    Row() {'',
           ''      Column({ space: 4 }) {'',
           ''        Text(entity.'' @ first_display @ '')'',
           ''          .fontSize(16)'',
           ''          .fontWeight(FontWeight.Medium)'',
           ''          .fontColor($r('app.color.text_primary'))'' @ second_display_code,
           ''      }'',
           ''      .alignItems(HorizontalAlign.Start)'',
           ''      .layoutWeight(1)'',
           ''      '',
           ''      Button('Deletar')'',
           ''        .fontSize(14)'',
           ''        .onClick(async () => {'',
           ''          const success = await this.viewModel.delete'' @ entity_name (config self) @ ''(entity.id);'',
           ''          if (success) {'',
           ''            promptAction.showToast({ message: 'Deletado com sucesso', duration: 2000 });'',
           ''          }'',
           ''        })'',
           ''    }'',
           ''    .width('100%')'',
           ''    .padding(16)'',
           ''    .backgroundColor(Color.White)'',
           ''    .borderRadius(8)'',
           ''    .onClick(() => {'',
           ''      this.viewModel.select'' @ entity_name (config self) @ ''(entity);'',
           ''    })'',
           ''  }'',
           ''  '',
           ''  @Builder'',
           ''  EmptyState() {'',
           ''    Column({ space: 16 }) {'',
           ''      Text('Nenhum registro encontrado')'',
           ''        .fontSize(16)'',
           ''        .fontColor($r('app.color.text_secondary'))'',
           ''      '',
           ''      Button('Recarregar')'',
           ''        .onClick(() => {'',
           ''          this.viewModel.load'' @ entity_name_plural self @ ''();'',
           ''        })'',
           ''    }'',
           ''    .width('100%')'',
           ''    .height('100%')'',
           ''    .justifyContent(FlexAlign.Center)'',
           ''  }'',
           ''  '',
           ''  build() {'',
           ''    Navigation() {'',
           ''      Column() {'',
           ''        if (this.viewModel.isLoading && this.viewModel.'' @ entity_name_lower self @ ''s.length === 0) {'',
           ''          LoadingProgress()'',
           ''            .width(60)'',
           ''            .height(60)'',
           ''        } else if (this.viewModel.errorMessage) {'',
           ''          Text(this.viewModel.errorMessage)'',
           ''            .fontSize(16)'',
           ''            .fontColor(Color.Red)'',
           ''            .padding(16)'',
           ''        } else if (this.viewModel.'' @ entity_name_lower self @ ''s.length === 0) {'',
           ''          this.EmptyState();'',
           ''        } else {'',
           ''          List({ space: 8 }) {'',
           ''            ForEach('',
           ''              this.viewModel.'' @ entity_name_lower self @ ''s,'',
           ''              (entity: '' @ entity_name (config self) @ '') => {'',
           ''                ListItem() {'',
           ''                  this.'' @ entity_name (config self) @ ''ListItem(entity);'',
           ''                }'',
           ''              },'',
           ''              (entity: '' @ entity_name (config self) @ '') => entity.id.toString()'',
           ''            )'',
           ''          }'',
           ''          .width('100%')'',
           ''          .layoutWeight(1)'',
           ''          .padding(16)'',
           ''        }'',
           ''      }'',
           ''      .width('100%')'',
           ''      .height('100%')'',
           ''    }'',
           ''    .title('' @ [CHR 0x27] @ entity_name (config self) @ ''s')'',
           ''    .titleMode(NavigationTitleMode.Mini)'',
           ''  }'',
           ''}''])"

section \<open>The generators of the traditional MVVM: lines 827 to 931\<close>

text \<open>\<open>_generate_simple_model\<close>, lines 827 to 829.\<close>

definition generate_simple_model :: "CodeGenerator \<Rightarrow> string" where
  "generate_simple_model self = generate_entity self"

text \<open>\<open>_generate_simple_repository\<close>, lines 831 to 871.\<close>

definition generate_simple_repository :: "CodeGenerator \<Rightarrow> string" where
  "generate_simple_repository self =
     join ''\<newline>'' [
       ''// data/repositories/'' @ entity_name (config self) @ ''Repository.ets'',
       '''',
       ''import { '' @ entity_name (config self) @ '' } from '../models/'' @ entity_name (config self) @ ''';'',
       ''import { ApiService } from '../datasources/remote/ApiService';'',
       '''',
       ''export class '' @ entity_name (config self) @ ''Repository {'',
       ''  private apiService: ApiService = new ApiService();'',
       ''  private endpoint: string = '/'' @ entity_name_lower self @ ''s';'',
       ''  '',
       ''  async get'' @ entity_name_plural self @ ''(): Promise<'' @ entity_name (config self) @ ''[]> {'',
       ''    const response = await this.apiService.get<{ data: Record<string, Object>[] }>(this.endpoint);'',
       ''    return response.data.map(data => '' @ entity_name (config self) @ ''.fromJson(data));'',
       ''  }'',
       ''  '',
       ''  async get'' @ entity_name (config self) @ ''ById(id: number): Promise<'' @ entity_name (config self) @ ''> {'',
       ''    const response = await this.apiService.get<{ data: Record<string, Object> }>(`${this.endpoint}/${id}`);'',
       ''    return '' @ entity_name (config self) @ ''.fromJson(response.data);'',
       ''  }'',
       ''  '',
       ''  async create'' @ entity_name (config self) @ ''(entity: '' @ entity_name (config self) @ ''): Promise<'' @ entity_name (config self) @ ''> {'',
       ''    const response = await this.apiService.post<{ data: Record<string, Object> }>('',
       ''      this.endpoint,'',
       ''      entity.toJson()'',
       ''    );'',
       ''    return '' @ entity_name (config self) @ ''.fromJson(response.data);'',
       ''  }'',
       ''  '',
       ''  async update'' @ entity_name (config self) @ ''(entity: '' @ entity_name (config self) @ ''): Promise<'' @ entity_name (config self) @ ''> {'',
       ''    const response = await this.apiService.put<{ data: Record<string, Object> }>('',
       ''      `${this.endpoint}/${entity.id}`,'',
       ''      entity.toJson()'',
       ''    );'',
       ''    return '' @ entity_name (config self) @ ''.fromJson(response.data);'',
       ''  }'',
       ''  '',
       ''  async delete'' @ entity_name (config self) @ ''(id: number): Promise<void> {'',
       ''    await this.apiService.delete<void>(`${this.endpoint}/${id}`);'',
       ''  }'',
       ''}'']"

text \<open>\<open>_generate_simple_viewmodel\<close>, lines 873 to 927.\<close>

definition generate_simple_viewmodel :: "CodeGenerator \<Rightarrow> string" where
  "generate_simple_viewmodel self =
     join ''\<newline>'' [
       ''// viewmodels/'' @ entity_name (config self) @ ''ViewModel.ets'',
       '''',
       ''import { BaseViewModel } from './base/BaseViewModel';'',
       ''import { '' @ entity_name (config self) @ '' } from '../data/models/'' @ entity_name (config self) @ ''';'',
       ''import { '' @ entity_name (config self) @ ''Repository } from '../data/repositories/'' @ entity_name (config self) @ ''Repository';'',
       '''',
       ''@Observed'',
       ''export class '' @ entity_name (config self) @ ''ViewModel extends BaseViewModel {'',
       ''  @State '' @ entity_name_lower self @ ''s: '' @ entity_name (config self) @ ''[] = [];'',
       ''  @State selected'' @ entity_name (config self) @ '': '' @ entity_name (config self) @ '' | null = null;'',
       ''  '',
       ''  private repository: '' @ entity_name (config self) @ ''Repository = new '' @ entity_name (config self) @ ''Repository();'',
       ''  '',
       ''  async load'' @ entity_name_plural self @ ''(): Promise<void> {'',
       ''    await this.executeAsync('',
       ''      () => this.repository.get'' @ entity_name_plural self @ ''(),'',
       ''      (result) => {'',
       ''        this.'' @ entity_name_lower self @ ''s = result;'',
       ''      }'',
       ''    );'',
       ''  }'',
       ''  '',
       ''  async create'' @ entity_name (config self) @ ''('' @ get_create_params self @ ''): Promise<boolean> {'',
       ''    let success = false;'',
       ''    const entity = new '' @ entity_name (config self) @ ''(0, '' @ get_create_args self @ '');'',
       ''    '',
       ''    await this.executeAsync('',
       ''      () => this.repository.create'' @ entity_name (config self) @ ''(entity),'',
       ''      (result) => {'',
       ''        this.'' @ entity_name_lower self @ ''s.push(result);'',
       ''        success = true;'',
       ''      }'',
       ''    );'',
       ''    return success;'',
       ''  }'',
       ''  '',
       ''  async delete'' @ entity_name (config self) @ ''(id: number): Promise<boolean> {'',
       ''    let success = false;'',
       ''    await this.executeAsync('',
       ''      () => this.repository.delete'' @ entity_name (config self) @ ''(id),'',
       ''      () => {'',
       ''        this.'' @ entity_name_lower self @ ''s = this.'' @ entity_name_lower self @ ''s.filter(e => e.id !== id);'',
       ''        success = true;'',
       ''      }'',
       ''    );'',
       ''    return success;'',
       ''  }'',
       ''  '',
       ''  onDestroy(): void {'',
       ''    this.'' @ entity_name_lower self @ ''s = [];'',
       ''    this.selected'' @ entity_name (config self) @ '' = null;'',
       ''  }'',
       ''}'']"

text \<open>\<open>_generate_simple_page\<close>, lines 929 to 931.\<close>

definition generate_simple_page :: "CodeGenerator \<Rightarrow> string" where
  "generate_simple_page self = generate_page self"

section \<open>\<open>generate_all\<close>: lines 54 to 87\<close>

text \<open>
  The dictionary \<open>files\<close> is an association list in insertion order, and
  \<open>files[k] = v\<close> is \<open>AList.update k v files\<close>: a key that is already there keeps
  its place and gets the new text. \<open>len(files)\<close> is the length of the list.
  \<open>architecture\<close> is a text (the annotation \<open>Literal['mvvm', 'clean']\<close> is not
  checked when the program runs).
\<close>

definition generate_all :: "CodeGenerator \<Rightarrow> (string \<times> string) list" where
  "generate_all self =
     (let files = [] in
      if architecture (config self) = ''clean'' then
        (let files = AList.update (''domain/entities/'' @ entity_name (config self) @ ''.ets'') (generate_entity self) files;
             files = AList.update (''domain/repositories/I'' @ entity_name (config self) @ ''Repository.ets'') (generate_repository_interface self) files;
             files = AList.update (''domain/usecases/'' @ entity_name_lower self @ ''/Get'' @ entity_name_plural self @ ''UseCase.ets'') (generate_get_all_usecase self) files;
             files = AList.update (''domain/usecases/'' @ entity_name_lower self @ ''/Get'' @ entity_name (config self) @ ''ByIdUseCase.ets'') (generate_get_by_id_usecase self) files;
             files = AList.update (''domain/usecases/'' @ entity_name_lower self @ ''/Create'' @ entity_name (config self) @ ''UseCase.ets'') (generate_create_usecase self) files;
             files = AList.update (''domain/usecases/'' @ entity_name_lower self @ ''/Update'' @ entity_name (config self) @ ''UseCase.ets'') (generate_update_usecase self) files;
             files = AList.update (''domain/usecases/'' @ entity_name_lower self @ ''/Delete'' @ entity_name (config self) @ ''UseCase.ets'') (generate_delete_usecase self) files;
             files = AList.update (''data/models/'' @ entity_name (config self) @ ''Model.ets'') (generate_model self) files;
             files = AList.update (''data/datasources/I'' @ entity_name (config self) @ ''RemoteDataSource.ets'') (generate_remote_datasource_interface self) files;
             files = AList.update (''data/datasources/'' @ entity_name (config self) @ ''RemoteDataSourceImpl.ets'') (generate_remote_datasource_impl self) files;
             files =
               (if include_cache (config self) then
                  (let files = AList.update (''data/datasources/I'' @ entity_name (config self) @ ''LocalDataSource.ets'') (generate_local_datasource_interface self) files;
                       files = AList.update (''data/datasources/'' @ entity_name (config self) @ ''LocalDataSourceImpl.ets'') (generate_local_datasource_impl self) files
                   in files)
                else files);
             files = AList.update (''data/repositories/'' @ entity_name (config self) @ ''RepositoryImpl.ets'') (generate_repository_impl self) files;
             files = AList.update (''presentation/viewmodels/'' @ entity_name (config self) @ ''ViewModel.ets'') (generate_viewmodel self) files;
             files = AList.update (''presentation/views/pages/'' @ entity_name (config self) @ ''Page.ets'') (generate_page self) files
         in files)
      else
        (let files = AList.update (''data/models/'' @ entity_name (config self) @ ''.ets'') (generate_simple_model self) files;
             files = AList.update (''data/repositories/'' @ entity_name (config self) @ ''Repository.ets'') (generate_simple_repository self) files;
             files = AList.update (''viewmodels/'' @ entity_name (config self) @ ''ViewModel.ets'') (generate_simple_viewmodel self) files;
             files = AList.update (''views/pages/'' @ entity_name (config self) @ ''Page.ets'') (generate_simple_page self) files
         in files))"

section \<open>The command line: \<open>cli.py\<close>, lines 101 to 155\<close>

text \<open>
  The namespace that \<open>argparse\<close> hands to \<open>_parse_config\<close>. The option
  \<open>--validation\<close> is the field \<open>validation_opt\<close> here, since \<open>validation\<close> is
  already a field of \<open>PropertyConfig\<close>; \<open>--output\<close> is not read by
  \<open>_parse_config\<close> and is left out.
\<close>

record Args =
  entity :: string
  props :: string
  arch :: string
  cache :: bool
  validation_opt :: bool

definition valid_types :: "string list" where
  "valid_types = [''string'', ''number'', ''boolean'', ''Date'']"

text \<open>\<open>_parse_properties\<close>, lines 122 to 155. The loop over
  \<open>props_string.split(',')\<close> is a fold that carries the list \<open>properties\<close>; an
  entry that is skipped (\<open>continue\<close>) leaves the list as it is. The warnings the
  loop prints are no part of the result and are not modelled.
  \<open>prop.split(':', 1)\<close> cuts at the first colon.\<close>

definition parse_properties :: "string \<Rightarrow> PropertyConfig list" where
  "parse_properties props_string =
     foldl (\<lambda>properties prop.
        let prop = strip prop in
        if CHR '':'' \<notin> set prop then properties
        else
          (let name_str = strip (takeWhile (\<lambda>c. c \<noteq> CHR '':'') prop);
               type_str = strip (tl (dropWhile (\<lambda>c. c \<noteq> CHR '':'') prop));
               is_optional = endswith type_str ''?'';
               type_str = (if is_optional then strip (butlast type_str) else type_str)
           in if type_str \<notin> set valid_types then properties
              else properties @
                [\<lparr>name = name_str, type = type_str, optional = is_optional, validation = []\<rparr>]))
       [] (split CHR '','' props_string)"

text \<open>\<open>_parse_config\<close>, lines 101 to 120: \<open>any(p.name == 'id' for p in properties)\<close>
  is \<open>list_ex\<close>, \<open>properties.insert(0, x)\<close> puts \<open>x\<close> in front.\<close>

definition parse_config :: "Args \<Rightarrow> GeneratorConfig" where
  "parse_config args =
     (let properties = parse_properties (props args);
          properties =
            (if \<not> list_ex (\<lambda>p. name p = ''id'') properties
             then \<lparr>name = ''id'', type = ''number'', optional = False, validation = []\<rparr> # properties
             else properties)
      in \<lparr>entity_name = entity args,
          properties = properties,
          include_cache = cache args,
          include_validation = validation_opt args,
          architecture = arch args\<rparr>)"

section \<open>Reading the generated texts\<close>

text \<open>The lines of a generated text, and whether a given line is one of them.\<close>

definition text_lines :: "string \<Rightarrow> string list" where
  "text_lines t = split CHR ''\<newline>'' t"

definition has_line :: "string \<Rightarrow> string \<Rightarrow> bool" where
  "has_line l t = (l \<in> set (text_lines t))"

text \<open>The header comment that names a path.\<close>

definition banner :: "string \<Rightarrow> string" where
  "banner path = ''// '' @ path"

text \<open>The lower form as the specification words it: the first character
  lower-cased, the rest unchanged. It is defined to be compared with
  \<open>entity_name_lower\<close>.\<close>

definition spec_lower :: "string \<Rightarrow> string" where
  "spec_lower s = (case s of [] \<Rightarrow> [] | c # cs \<Rightarrow> lower_char c # cs)"

text \<open>What the templates read of a configuration. Of a rule they write the text of
  its payload (\<open>{rule.value}\<close>, \<open>str(rule.value)\<close>) and \<open>rule.message or ...\<close>,
  which takes an empty message for none. \<open>rendered_rule\<close> puts the text of the
  payload in its place and no message for an empty one; \<open>rendered_config\<close> does so
  for every rule of every property.\<close>

definition rendered_rule :: "ValidationRule \<Rightarrow> ValidationRule" where
  "rendered_rule rule =
     rule\<lparr>rule_value := Some (StrV (str_value (rule_value rule))),
          message := (if message rule = Some [] then None else message rule)\<rparr>"

definition rendered_property :: "PropertyConfig \<Rightarrow> PropertyConfig" where
  "rendered_property prop = prop\<lparr>validation := map rendered_rule (validation prop)\<rparr>"

definition rendered_config :: "GeneratorConfig \<Rightarrow> GeneratorConfig" where
  "rendered_config cfg = cfg\<lparr>properties := map rendered_property (properties cfg)\<rparr>"

section \<open>Example schemas\<close>

text \<open>The schema of the end-to-end scenario: \<open>User\<close> with \<open>id: number\<close>,
  \<open>name: string\<close> and \<open>email: string?\<close>, without validation.\<close>

definition user_properties :: "PropertyConfig list" where
  "user_properties =
     [\<lparr>name = ''id'', type = ''number'', optional = False, validation = []\<rparr>,
      \<lparr>name = ''name'', type = ''string'', optional = False, validation = []\<rparr>,
      \<lparr>name = ''email'', type = ''string'', optional = True, validation = []\<rparr>]"

definition user_schema :: "string \<Rightarrow> bool \<Rightarrow> GeneratorConfig" where
  "user_schema arch_name with_cache =
     \<lparr>entity_name = ''User'', properties = user_properties,
      include_cache = with_cache, include_validation = False,
      architecture = arch_name\<rparr>"

text \<open>\<open>example_minimal\<close> of \<open>example_usage.py\<close> (lines 135 to 153), for both
  architectures.\<close>

definition category_schema :: "string \<Rightarrow> GeneratorConfig" where
  "category_schema arch_name =
     \<lparr>entity_name = ''Category'',
      properties =
        [\<lparr>name = ''id'', type = ''number'', optional = False, validation = []\<rparr>,
         \<lparr>name = ''name'', type = ''string'', optional = False, validation = []\<rparr>],
      include_cache = False, include_validation = False,
      architecture = arch_name\<rparr>"

text \<open>The entity name of \<open>example_blog_post\<close> (line 100 of \<open>example_usage.py\<close>).\<close>

definition blog_post_schema :: GeneratorConfig where
  "blog_post_schema =
     \<lparr>entity_name = ''BlogPost'',
      properties =
        [\<lparr>name = ''id'', type = ''number'', optional = False, validation = []\<rparr>,
         \<lparr>name = ''title'', type = ''string'', optional = False, validation = []\<rparr>],
      include_cache = True, include_validation = False,
      architecture = ''clean''\<rparr>"

text \<open>A schema with validation: an optional text with a minimum length, as
  \<open>example_usage.py\<close> attaches rules to optional properties (lines 41 to 49).\<close>

definition bio_property :: PropertyConfig where
  "bio_property =
     \<lparr>name = ''bio'', type = ''string'', optional = True,
      validation = [\<lparr>rule_type = MIN_LENGTH, rule_value = Some (IntV 3), message = None\<rparr>]\<rparr>"

definition profile_schema :: GeneratorConfig where
  "profile_schema =
     \<lparr>entity_name = ''Profile'',
      properties =
        [\<lparr>name = ''id'', type = ''number'', optional = False, validation = []\<rparr>,
         bio_property],
      include_cache = False, include_validation = True,
      architecture = ''clean''\<rparr>"

text \<open>The same schema with the payload written as the text \<open>'3'\<close> and an empty
  message.\<close>

definition profile_text_schema :: GeneratorConfig where
  "profile_text_schema =
     \<lparr>entity_name = ''Profile'',
      properties =
        [\<lparr>name = ''id'', type = ''number'', optional = False, validation = []\<rparr>,
         \<lparr>name = ''bio'', type = ''string'', optional = True,
          validation = [\<lparr>rule_type = MIN_LENGTH, rule_value = Some (StrV ''3''),
                         message = Some []\<rparr>]\<rparr>],
      include_cache = False, include_validation = True,
      architecture = ''clean''\<rparr>"

text \<open>Two command lines of \<open>generate\<close>: \<open>--props "name:string,id:string?"\<close>, where
  the caller supplies \<open>id\<close> itself, and \<open>--props "name:string, email:string?"\<close>,
  where it does not.\<close>

definition args_id_last :: Args where
  "args_id_last = \<lparr>entity = ''User'', props = ''name:string,id:string?'', arch = ''clean'',
      cache = False, validation_opt = False\<rparr>"

definition args_no_id :: Args where
  "args_no_id = \<lparr>entity = ''User'', props = ''name:string, email:string?'', arch = ''clean'',
      cache = False, validation_opt = False\<rparr>"

section \<open>Facts about the string functions\<close>

subsection \<open>Suffixes\<close>

lemma endswith_single: "endswith s [c] \<longleftrightarrow> s \<noteq> [] \<and> last s = c"
proof (cases s rule: rev_cases)
  case Nil
  then show ?thesis by (simp add: endswith_def)
next
  case (snoc ys y)
  then show ?thesis by (simp add: endswith_def)
qed

subsection \<open>Splitting and joining\<close>

lemma split_nonempty: "split c s \<noteq> []"
  by (induction s) (auto split: list.splits)

lemma split_no_sep: "c \<notin> set s \<Longrightarrow> split c s = [s]"
  by (induction s) auto

lemma split_append_sep: "split c (a @ c # b) = split c a @ split c b"
proof (induction a)
  case Nil
  then show ?case by simp
next
  case (Cons x a)
  then show ?case
    using split_nonempty [of c a] by (cases "split c a") auto
qed

lemma split_join: "xs \<noteq> [] \<Longrightarrow> split c (join [c] xs) = concat (map (split c) xs)"
proof (induction "[c]" xs rule: join.induct)
  case 1
  then show ?case by simp
next
  case (2 x)
  then show ?case by simp
next
  case (3 x y ys)
  then show ?case by (simp add: split_append_sep)
qed

lemma split_append_no_sep:
  "c \<notin> set a \<Longrightarrow>
   split c (a @ b) = (case split c b of [] \<Rightarrow> [a] | l # ls \<Rightarrow> (a @ l) # ls)"
proof (induction a)
  case Nil
  then show ?case using split_nonempty [of c b] by (cases "split c b") auto
next
  case (Cons x a)
  then show ?case using split_nonempty [of c b] by (cases "split c b") auto
qed

lemmas split_lines = split_join split_no_sep split_append_no_sep

lemma hd_split_join:
  "hd (split c (join [c] (x # xs))) = hd (split c x)"
  using split_nonempty [of c x] by (simp add: split_join)

subsection \<open>Lower-casing keeps a text free of newlines\<close>

lemma of_char_lower_char:
  "(of_char (lower_char c) :: nat) =
     (if (65 \<le> (of_char c :: nat) \<and> (of_char c :: nat) \<le> 90)
         \<or> (192 \<le> (of_char c :: nat) \<and> (of_char c :: nat) \<le> 222
            \<and> (of_char c :: nat) \<noteq> 215)
      then of_char c + 32 else of_char c)"
  by (auto simp add: lower_char_def Let_def)

lemma lower_char_nl: "lower_char c = CHR ''\<newline>'' \<longleftrightarrow> c = CHR ''\<newline>''"
proof -
  have "lower_char c = CHR ''\<newline>''
          \<longleftrightarrow> (of_char (lower_char c) :: nat) = of_char CHR ''\<newline>''"
    by (simp only: of_char_eq_iff)
  also have "\<dots> \<longleftrightarrow> (of_char c :: nat) = of_char CHR ''\<newline>''"
    by (auto simp add: of_char_lower_char)
  also have "\<dots> \<longleftrightarrow> c = CHR ''\<newline>''"
    by (simp only: of_char_eq_iff)
  finally show ?thesis .
qed

lemma nl_lower_char: "CHR ''\<newline>'' = lower_char c \<longleftrightarrow> c = CHR ''\<newline>''"
  using lower_char_nl [of c] by auto

lemma nl_lower: "CHR ''\<newline>'' \<in> set (lower s) \<longleftrightarrow> CHR ''\<newline>'' \<in> set s"
  by (induction s) (auto simp add: lower_def lower_char_nl nl_lower_char)

lemma nl_pluralize: "CHR ''\<newline>'' \<notin> set w \<Longrightarrow> CHR ''\<newline>'' \<notin> set (pluralize w)"
  by (auto simp add: pluralize_def dest: in_set_butlastD)

lemma length_lower [simp]: "length (lower s) = length s"
  by (simp add: lower_def)

subsection \<open>Texts of different lengths are different\<close>

lemma cons_append_neq:
  "length a + 1 \<noteq> length b \<Longrightarrow> (c # e @ a = e @ b) = False"
  "length a + 1 \<noteq> length b \<Longrightarrow> (e @ b = c # e @ a) = False"
  by (auto dest: arg_cong [where f = length])

subsection \<open>The fields of a fresh generator object\<close>

lemma init_simps [simp]:
  "config (init cfg) = cfg"
  "entity_name_lower (init cfg) = lower (entity_name cfg)"
  "entity_name_plural (init cfg) = pluralize (lower (entity_name cfg))"
  by (simp_all add: init_def)

lemma lower_examples:
  "lower ''User'' = ''user''"
  "lower ''Category'' = ''category''"
  "lower ''BlogPost'' = ''blogpost''"
  by code_simp+

lemma pluralize_examples:
  "pluralize ''user'' = ''users''"
  "pluralize ''category'' = ''categories''"
  "pluralize ''blogpost'' = ''blogposts''"
  by (simp_all add: pluralize_def endswith_def)

lemma user_schema_simps [simp]:
  "entity_name (user_schema a b) = ''User''"
  "include_cache (user_schema a b) = b"
  "architecture (user_schema a b) = a"
  "include_validation (user_schema a b) = False"
  "properties (user_schema a b) = user_properties"
  by (simp_all add: user_schema_def)

lemma spec_lower_example: "spec_lower ''BlogPost'' = ''blogPost''"
  by code_simp

lemma map_fixed_iff: "map f xs = xs \<longleftrightarrow> list_all (\<lambda>x. f x = x) xs"
  by (induction xs) auto

section \<open>Pluralisation\<close>

text \<open>
  Claim C5. For every non-empty word the derived plural is: the word with its final
  \<open>y\<close> replaced by \<open>ies\<close> when it ends in \<open>y\<close>; else the word followed by \<open>es\<close>
  when it ends in \<open>s\<close>, \<open>x\<close> or \<open>z\<close>; else the word followed by \<open>s\<close>. In
  particular \<open>category\<close> gives \<open>categories\<close>, \<open>bus\<close> gives \<open>buses\<close> and \<open>user\<close>
  gives \<open>users\<close>, and the generator object stores the plural of its lower-cased
  entity name.
\<close>

theorem pluralize_by_last_letter:
  assumes "word \<noteq> []"
  shows "pluralize word =
           (if last word = CHR ''y'' then butlast word @ ''ies''
            else if last word = CHR ''s'' \<or> last word = CHR ''x'' \<or> last word = CHR ''z''
            then word @ ''es''
            else word @ ''s'')
         \<and> pluralize ''category'' = ''categories''
         \<and> pluralize ''bus'' = ''buses''
         \<and> pluralize ''user'' = ''users''
         \<and> entity_name_plural (init cfg) = pluralize (entity_name_lower (init cfg))"
proof -
  have general: "pluralize word =
           (if last word = CHR ''y'' then butlast word @ ''ies''
            else if last word = CHR ''s'' \<or> last word = CHR ''x'' \<or> last word = CHR ''z''
            then word @ ''es''
            else word @ ''s'')"
    using assms by (simp add: pluralize_def endswith_single)
  have "pluralize ''category'' = ''categories''"
    by (simp add: pluralize_def endswith_def)
  moreover have "pluralize ''bus'' = ''buses''"
    by (simp add: pluralize_def endswith_def)
  moreover have "pluralize ''user'' = ''users''"
    by (simp add: pluralize_def endswith_def)
  moreover have "entity_name_plural (init cfg) = pluralize (entity_name_lower (init cfg))"
    by (simp add: init_def)
  ultimately show ?thesis using general by simp
qed

theorem pluralize_by_last_letter_witness:
  "pluralize ''box'' = ''boxes''"
  using pluralize_by_last_letter [of "''box''"] by simp

section \<open>The end-to-end scenario\<close>

text \<open>
  Claim C2, as stated: the \<open>User\<close> schema under clean architecture yields 11 files
  without the cache and 13 with it. The code yields 13 and 15.
\<close>

theorem user_scenario_counterexample:
  "length (generate_all (init (user_schema ''clean'' False))) \<noteq> 11
   \<and> length (generate_all (init (user_schema ''clean'' True))) \<noteq> 13"
  by (simp add: generate_all_def Let_def lower_examples pluralize_examples)

text \<open>
  Claim C2, amended. The \<open>User\<close> schema under clean architecture without the cache
  yields exactly these files, in this order: the entity, the repository interface,
  five use cases, the model (DTO and mapper in one file), the remote data source
  interface and implementation, the repository implementation, the view-model and
  the page. That is 13 files, none of them a local data source. With the cache the
  two local data source files come after the first ten, which gives 15 files.
\<close>

theorem user_scenario_files:
  "generate_all (init (user_schema ''clean'' False)) =
     [(''domain/entities/User.ets'', generate_entity (init (user_schema ''clean'' False))),
      (''domain/repositories/IUserRepository.ets'',
         generate_repository_interface (init (user_schema ''clean'' False))),
      (''domain/usecases/user/GetusersUseCase.ets'',
         generate_get_all_usecase (init (user_schema ''clean'' False))),
      (''domain/usecases/user/GetUserByIdUseCase.ets'',
         generate_get_by_id_usecase (init (user_schema ''clean'' False))),
      (''domain/usecases/user/CreateUserUseCase.ets'',
         generate_create_usecase (init (user_schema ''clean'' False))),
      (''domain/usecases/user/UpdateUserUseCase.ets'',
         generate_update_usecase (init (user_schema ''clean'' False))),
      (''domain/usecases/user/DeleteUserUseCase.ets'',
         generate_delete_usecase (init (user_schema ''clean'' False))),
      (''data/models/UserModel.ets'', generate_model (init (user_schema ''clean'' False))),
      (''data/datasources/IUserRemoteDataSource.ets'',
         generate_remote_datasource_interface (init (user_schema ''clean'' False))),
      (''data/datasources/UserRemoteDataSourceImpl.ets'',
         generate_remote_datasource_impl (init (user_schema ''clean'' False))),
      (''data/repositories/UserRepositoryImpl.ets'',
         generate_repository_impl (init (user_schema ''clean'' False))),
      (''presentation/viewmodels/UserViewModel.ets'',
         generate_viewmodel (init (user_schema ''clean'' False))),
      (''presentation/views/pages/UserPage.ets'',
         generate_page (init (user_schema ''clean'' False)))]
   \<and> length (generate_all (init (user_schema ''clean'' False))) = 13
   \<and> map fst (generate_all (init (user_schema ''clean'' True))) =
       take 10 (map fst (generate_all (init (user_schema ''clean'' False))))
       @ [''data/datasources/IUserLocalDataSource.ets'',
          ''data/datasources/UserLocalDataSourceImpl.ets'']
       @ drop 10 (map fst (generate_all (init (user_schema ''clean'' False))))
   \<and> length (generate_all (init (user_schema ''clean'' True))) = 15"
  by (simp add: generate_all_def Let_def lower_examples pluralize_examples)

section \<open>The lower form of the entity name\<close>

lemma lower_form_in_texts:
  assumes "CHR ''\<newline>'' \<notin> set (entity_name cfg)"
  shows "hd (text_lines (generate_create_usecase (init cfg)))
           = banner (''domain/usecases/'' @ entity_name_lower (init cfg) @ ''/Create''
                      @ entity_name cfg @ ''UseCase.ets'')"
    and "has_line (''  private readonly CACHE_KEY = '' @ [CHR 0x27]
                     @ entity_name_lower (init cfg) @ ''_cache'' @ [CHR 0x27] @ '';'')
           (generate_local_datasource_impl (init cfg))"
  using assms nl_pluralize [of "lower (entity_name cfg)"]
  by (simp_all add: text_lines_def has_line_def banner_def generate_create_usecase_def
        generate_local_datasource_impl_def Let_def split_lines nl_lower
        del: split.simps join.simps append_Cons append_Nil append_assoc)

text \<open>
  Claim C4, as stated: the lower form is the entity name with only its first
  character lower-cased, so \<open>BlogPost\<close> derives \<open>blogPost\<close>. The code lower-cases
  every character and derives \<open>blogpost\<close>.
\<close>

theorem lower_form_counterexample:
  "entity_name_lower (init blog_post_schema) = ''blogpost''
   \<and> entity_name_lower (init blog_post_schema) \<noteq> ''blogPost''
   \<and> spec_lower (entity_name blog_post_schema) = ''blogPost''"
  by (simp add: blog_post_schema_def lower_examples spec_lower_example)

text \<open>
  Claim C4, amended. The lower form is the entity name with every character
  lower-cased. It is the form of the specification (first character lower-cased,
  rest unchanged) exactly when lower-casing changes no character after the first.
  Under clean architecture the five use case paths are built from this lower form,
  and for an entity name without a newline so are the header of the create use case
  and the cache key of the local data source.
\<close>

theorem lower_form_is_all_lower:
  "entity_name_lower (init cfg) = map lower_char (entity_name cfg)
   \<and> (entity_name_lower (init cfg) = spec_lower (entity_name cfg)
        \<longleftrightarrow> list_all (\<lambda>c. lower_char c = c) (tl (entity_name cfg)))
   \<and> (architecture cfg = ''clean'' \<longrightarrow>
        {''domain/usecases/'' @ entity_name_lower (init cfg) @ ''/Get''
            @ pluralize (entity_name_lower (init cfg)) @ ''UseCase.ets'',
         ''domain/usecases/'' @ entity_name_lower (init cfg) @ ''/Get''
            @ entity_name cfg @ ''ByIdUseCase.ets'',
         ''domain/usecases/'' @ entity_name_lower (init cfg) @ ''/Create''
            @ entity_name cfg @ ''UseCase.ets'',
         ''domain/usecases/'' @ entity_name_lower (init cfg) @ ''/Update''
            @ entity_name cfg @ ''UseCase.ets'',
         ''domain/usecases/'' @ entity_name_lower (init cfg) @ ''/Delete''
            @ entity_name cfg @ ''UseCase.ets''}
        \<subseteq> fst ` set (generate_all (init cfg)))
   \<and> (CHR ''\<newline>'' \<notin> set (entity_name cfg) \<longrightarrow>
        hd (text_lines (generate_create_usecase (init cfg)))
          = banner (''domain/usecases/'' @ entity_name_lower (init cfg) @ ''/Create''
                     @ entity_name cfg @ ''UseCase.ets'')
        \<and> has_line (''  private readonly CACHE_KEY = '' @ [CHR 0x27]
                     @ entity_name_lower (init cfg) @ ''_cache'' @ [CHR 0x27] @ '';'')
             (generate_local_datasource_impl (init cfg)))"
proof -
  have a: "entity_name_lower (init cfg) = map lower_char (entity_name cfg)"
    by (simp add: lower_def)
  have b: "entity_name_lower (init cfg) = spec_lower (entity_name cfg)
        \<longleftrightarrow> list_all (\<lambda>c. lower_char c = c) (tl (entity_name cfg))"
    by (cases "entity_name cfg") (simp_all add: lower_def spec_lower_def map_fixed_iff)
  have c: "architecture cfg = ''clean'' \<longrightarrow>
        {''domain/usecases/'' @ entity_name_lower (init cfg) @ ''/Get''
            @ pluralize (entity_name_lower (init cfg)) @ ''UseCase.ets'',
         ''domain/usecases/'' @ entity_name_lower (init cfg) @ ''/Get''
            @ entity_name cfg @ ''ByIdUseCase.ets'',
         ''domain/usecases/'' @ entity_name_lower (init cfg) @ ''/Create''
            @ entity_name cfg @ ''UseCase.ets'',
         ''domain/usecases/'' @ entity_name_lower (init cfg) @ ''/Update''
            @ entity_name cfg @ ''UseCase.ets'',
         ''domain/usecases/'' @ entity_name_lower (init cfg) @ ''/Delete''
            @ entity_name cfg @ ''UseCase.ets''}
        \<subseteq> fst ` set (generate_all (init cfg))"
    by (simp add: generate_all_def Let_def dom_update del: AList.update.simps)
  from a b c lower_form_in_texts [of cfg] show ?thesis by blast
qed

theorem lower_form_is_all_lower_witness:
  "architecture blog_post_schema = ''clean''
   \<and> CHR ''\<newline>'' \<notin> set (entity_name blog_post_schema)
   \<and> ''domain/usecases/blogpost/CreateBlogPostUseCase.ets''
       \<in> fst ` set (generate_all (init blog_post_schema))
   \<and> hd (text_lines (generate_create_usecase (init blog_post_schema)))
       = ''// domain/usecases/blogpost/CreateBlogPostUseCase.ets''
   \<and> has_line (''  private readonly CACHE_KEY = '' @ [CHR 0x27] @ ''blogpost_cache''
                  @ [CHR 0x27] @ '';'')
         (generate_local_datasource_impl (init blog_post_schema))"
proof -
  have arch: "architecture blog_post_schema = ''clean''"
    and e: "entity_name blog_post_schema = ''BlogPost''"
    by (simp_all add: blog_post_schema_def)
  have free: "CHR ''\<newline>'' \<notin> set (entity_name blog_post_schema)"
    by (simp add: e)
  note facts = lower_form_is_all_lower [of blog_post_schema]
  from facts arch
  have "''domain/usecases/'' @ entity_name_lower (init blog_post_schema) @ ''/Create''
            @ entity_name blog_post_schema @ ''UseCase.ets''
          \<in> fst ` set (generate_all (init blog_post_schema))"
    by blast
  moreover from facts free
  have "hd (text_lines (generate_create_usecase (init blog_post_schema)))
          = banner (''domain/usecases/'' @ entity_name_lower (init blog_post_schema) @ ''/Create''
                     @ entity_name blog_post_schema @ ''UseCase.ets'')"
    and "has_line (''  private readonly CACHE_KEY = '' @ [CHR 0x27]
                     @ entity_name_lower (init blog_post_schema) @ ''_cache'' @ [CHR 0x27] @ '';'')
             (generate_local_datasource_impl (init blog_post_schema))"
    by blast+
  ultimately show ?thesis
    using arch free by (simp add: e lower_examples banner_def)
qed

section \<open>An architecture outside the enumeration\<close>

text \<open>
  Claim C7, as stated: for an architecture value outside \<open>clean\<close> and \<open>mvvm\<close>,
  \<open>generate_all\<close> raises an error and returns no file map. For \<open>hexagonal\<close> the
  code returns the four files of the MVVM branch.
\<close>

theorem unknown_architecture_counterexample:
  "map fst (generate_all (init (user_schema ''hexagonal'' False))) =
     [''data/models/User.ets'', ''data/repositories/UserRepository.ets'',
      ''viewmodels/UserViewModel.ets'', ''views/pages/UserPage.ets'']"
  by (simp add: generate_all_def Let_def user_schema_def)

text \<open>
  Claim C7, amended. For every architecture value other than \<open>clean\<close>, in the
  enumeration or outside it, \<open>generate_all\<close> raises nothing and returns the file map
  of the MVVM branch: the model, the repository, the view-model and the page.
\<close>

theorem unknown_architecture_is_mvvm:
  assumes "architecture cfg \<noteq> ''clean''"
  shows "generate_all (init cfg) =
           [(''data/models/'' @ entity_name cfg @ ''.ets'', generate_simple_model (init cfg)),
            (''data/repositories/'' @ entity_name cfg @ ''Repository.ets'',
               generate_simple_repository (init cfg)),
            (''viewmodels/'' @ entity_name cfg @ ''ViewModel.ets'',
               generate_simple_viewmodel (init cfg)),
            (''views/pages/'' @ entity_name cfg @ ''Page.ets'', generate_simple_page (init cfg))]"
  using assms by (simp add: generate_all_def Let_def)

theorem unknown_architecture_is_mvvm_witness:
  "architecture (user_schema ''hexagonal'' True) \<noteq> ''clean''
   \<and> length (generate_all (init (user_schema ''hexagonal'' True))) = 4"
  using unknown_architecture_is_mvvm [of "user_schema ''hexagonal'' True"]
  by simp

section \<open>The cache: local data source files and the fallback\<close>

lemma local_datasource_paths:
  "(''data/datasources/I'' @ entity_name cfg @ ''LocalDataSource.ets''
      \<in> fst ` set (generate_all (init cfg))
      \<longleftrightarrow> architecture cfg = ''clean'' \<and> include_cache cfg)
   \<and> (''data/datasources/'' @ entity_name cfg @ ''LocalDataSourceImpl.ets''
      \<in> fst ` set (generate_all (init cfg))
      \<longleftrightarrow> architecture cfg = ''clean'' \<and> include_cache cfg)"
  by (simp add: generate_all_def Let_def dom_update cons_append_neq del: AList.update.simps)

lemma repository_impl_file:
  "architecture cfg = ''clean'' \<Longrightarrow>
   map_of (generate_all (init cfg)) (''data/repositories/'' @ entity_name cfg @ ''RepositoryImpl.ets'')
     = Some (generate_repository_impl (init cfg))"
  by (simp add: generate_all_def Let_def update_conv' del: AList.update.simps)

lemma repository_impl_with_cache:
  assumes "CHR ''\<newline>'' \<notin> set (entity_name cfg)" and "include_cache cfg"
  shows "sublist
           [''  async get'' @ pluralize (lower (entity_name cfg)) @ ''(): Promise<''
              @ entity_name cfg @ ''[]> {'',
            ''    try {'',
            ''      const dtos = await this.remoteDataSource.fetch''
              @ pluralize (lower (entity_name cfg)) @ ''();'',
            ''      await this.localDataSource.cache''
              @ pluralize (lower (entity_name cfg)) @ ''(dtos);'',
            ''      return '' @ entity_name cfg @ ''Mapper.toDomainList(dtos);'',
            ''    } catch (error) {'',
            ''      const cachedDtos = await this.localDataSource.getCached''
              @ pluralize (lower (entity_name cfg)) @ ''();'',
            ''      return '' @ entity_name cfg @ ''Mapper.toDomainList(cachedDtos);'',
            ''    }'',
            ''  }'']
           (text_lines (generate_repository_impl (init cfg)))"
    and "has_line (''import { I'' @ entity_name cfg @ ''LocalDataSource } from ''
             @ [CHR 0x27] @ ''../datasources/I'' @ entity_name cfg @ ''LocalDataSource'' @ [CHR 0x27] @ '';'')
           (generate_repository_impl (init cfg))"
    and "\<not> has_line (''    const dtos = await this.remoteDataSource.fetch''
              @ pluralize (lower (entity_name cfg)) @ ''();'')
           (generate_repository_impl (init cfg))"
  using assms nl_pluralize [of "lower (entity_name cfg)"]
    apply (simp_all add: text_lines_def has_line_def generate_repository_impl_def Let_def cache_logic_with_cache_def
        cache_import_text_def cache_constructor_param_text_def split_lines nl_lower
        del: split.simps join.simps append_Cons append_Nil append_assoc)
    apply (simp_all add: sublist_Cons_right)
  done

lemma repository_impl_without_cache:
  assumes "CHR ''\<newline>'' \<notin> set (entity_name cfg)" and "\<not> include_cache cfg"
  shows "sublist
           [''  async get'' @ pluralize (lower (entity_name cfg)) @ ''(): Promise<''
              @ entity_name cfg @ ''[]> {'',
            ''    const dtos = await this.remoteDataSource.fetch''
              @ pluralize (lower (entity_name cfg)) @ ''();'',
            ''    return '' @ entity_name cfg @ ''Mapper.toDomainList(dtos);'',
            ''  }'']
           (text_lines (generate_repository_impl (init cfg)))"
    and "\<not> has_line ''    try {'' (generate_repository_impl (init cfg))"
    and "\<not> has_line ''    } catch (error) {'' (generate_repository_impl (init cfg))"
    and "\<not> has_line (''      const cachedDtos = await this.localDataSource.getCached''
              @ pluralize (lower (entity_name cfg)) @ ''();'')
           (generate_repository_impl (init cfg))"
    and "\<not> has_line (''import { I'' @ entity_name cfg @ ''LocalDataSource } from ''
             @ [CHR 0x27] @ ''../datasources/I'' @ entity_name cfg @ ''LocalDataSource'' @ [CHR 0x27] @ '';'')
           (generate_repository_impl (init cfg))"
  using assms nl_pluralize [of "lower (entity_name cfg)"]
    apply (simp_all add: text_lines_def has_line_def generate_repository_impl_def Let_def
        cache_logic_without_cache_def split_lines nl_lower
        del: split.simps join.simps append_Cons append_Nil append_assoc)
    apply (simp_all add: sublist_Cons_right cons_append_neq)
  done

text \<open>
  Claim C3. The two local data source files are in the file map exactly when the
  architecture is \<open>clean\<close> and \<open>include_cache\<close> is set. For an entity name without
  a newline, the lines of the repository implementation hold the body of the
  get-all method with its try (remote fetch, then caching the result) and its catch
  (falling back to the cached data) exactly when \<open>include_cache\<close> is set, and the
  body that calls the remote data source directly exactly when it is not; the lines
  \<open>try\<close>, \<open>catch\<close>, the read of the cache and the import of the local data
  source are lines of the text exactly when \<open>include_cache\<close> is set. Under clean
  architecture this text is the one emitted at the path of the repository
  implementation.
\<close>

theorem cache_files_and_fallback:
  "(''data/datasources/I'' @ entity_name cfg @ ''LocalDataSource.ets''
      \<in> fst ` set (generate_all (init cfg))
      \<longleftrightarrow> architecture cfg = ''clean'' \<and> include_cache cfg)
   \<and> (''data/datasources/'' @ entity_name cfg @ ''LocalDataSourceImpl.ets''
      \<in> fst ` set (generate_all (init cfg))
      \<longleftrightarrow> architecture cfg = ''clean'' \<and> include_cache cfg)
   \<and> (CHR ''\<newline>'' \<notin> set (entity_name cfg) \<longrightarrow>
        (sublist
           [''  async get'' @ pluralize (lower (entity_name cfg)) @ ''(): Promise<''
              @ entity_name cfg @ ''[]> {'',
            ''    try {'',
            ''      const dtos = await this.remoteDataSource.fetch''
              @ pluralize (lower (entity_name cfg)) @ ''();'',
            ''      await this.localDataSource.cache''
              @ pluralize (lower (entity_name cfg)) @ ''(dtos);'',
            ''      return '' @ entity_name cfg @ ''Mapper.toDomainList(dtos);'',
            ''    } catch (error) {'',
            ''      const cachedDtos = await this.localDataSource.getCached''
              @ pluralize (lower (entity_name cfg)) @ ''();'',
            ''      return '' @ entity_name cfg @ ''Mapper.toDomainList(cachedDtos);'',
            ''    }'',
            ''  }'']
           (text_lines (generate_repository_impl (init cfg)))
         \<longleftrightarrow> include_cache cfg)
      \<and> (sublist
           [''  async get'' @ pluralize (lower (entity_name cfg)) @ ''(): Promise<''
              @ entity_name cfg @ ''[]> {'',
            ''    const dtos = await this.remoteDataSource.fetch''
              @ pluralize (lower (entity_name cfg)) @ ''();'',
            ''    return '' @ entity_name cfg @ ''Mapper.toDomainList(dtos);'',
            ''  }'']
           (text_lines (generate_repository_impl (init cfg)))
         \<longleftrightarrow> \<not> include_cache cfg)
      \<and> (has_line ''    try {'' (generate_repository_impl (init cfg))
         \<longleftrightarrow> include_cache cfg)
      \<and> (has_line ''    } catch (error) {'' (generate_repository_impl (init cfg))
         \<longleftrightarrow> include_cache cfg)
      \<and> (has_line (''      const cachedDtos = await this.localDataSource.getCached''
              @ pluralize (lower (entity_name cfg)) @ ''();'')
           (generate_repository_impl (init cfg))
         \<longleftrightarrow> include_cache cfg)
      \<and> (has_line (''import { I'' @ entity_name cfg @ ''LocalDataSource } from ''
             @ [CHR 0x27] @ ''../datasources/I'' @ entity_name cfg @ ''LocalDataSource''
             @ [CHR 0x27] @ '';'')
           (generate_repository_impl (init cfg))
         \<longleftrightarrow> include_cache cfg))
   \<and> (architecture cfg = ''clean'' \<longrightarrow>
        map_of (generate_all (init cfg))
          (''data/repositories/'' @ entity_name cfg @ ''RepositoryImpl.ets'')
        = Some (generate_repository_impl (init cfg)))"
proof -
  let ?repo = "generate_repository_impl (init cfg)"
  let ?with = "[''  async get'' @ pluralize (lower (entity_name cfg)) @ ''(): Promise<''
              @ entity_name cfg @ ''[]> {'',
            ''    try {'',
            ''      const dtos = await this.remoteDataSource.fetch''
              @ pluralize (lower (entity_name cfg)) @ ''();'',
            ''      await this.localDataSource.cache''
              @ pluralize (lower (entity_name cfg)) @ ''(dtos);'',
            ''      return '' @ entity_name cfg @ ''Mapper.toDomainList(dtos);'',
            ''    } catch (error) {'',
            ''      const cachedDtos = await this.localDataSource.getCached''
              @ pluralize (lower (entity_name cfg)) @ ''();'',
            ''      return '' @ entity_name cfg @ ''Mapper.toDomainList(cachedDtos);'',
            ''    }'',
            ''  }'']"
  let ?without = "[''  async get'' @ pluralize (lower (entity_name cfg)) @ ''(): Promise<''
              @ entity_name cfg @ ''[]> {'',
            ''    const dtos = await this.remoteDataSource.fetch''
              @ pluralize (lower (entity_name cfg)) @ ''();'',
            ''    return '' @ entity_name cfg @ ''Mapper.toDomainList(dtos);'',
            ''  }'']"
  have body: "(sublist ?with (text_lines ?repo) \<longleftrightarrow> include_cache cfg)
      \<and> (sublist ?without (text_lines ?repo) \<longleftrightarrow> \<not> include_cache cfg)
      \<and> (has_line ''    try {'' ?repo \<longleftrightarrow> include_cache cfg)
      \<and> (has_line ''    } catch (error) {'' ?repo \<longleftrightarrow> include_cache cfg)
      \<and> (has_line (''      const cachedDtos = await this.localDataSource.getCached''
              @ pluralize (lower (entity_name cfg)) @ ''();'') ?repo
         \<longleftrightarrow> include_cache cfg)
      \<and> (has_line (''import { I'' @ entity_name cfg @ ''LocalDataSource } from ''
             @ [CHR 0x27] @ ''../datasources/I'' @ entity_name cfg @ ''LocalDataSource''
             @ [CHR 0x27] @ '';'') ?repo
         \<longleftrightarrow> include_cache cfg)"
    if free: "CHR ''\<newline>'' \<notin> set (entity_name cfg)"
  proof (cases "include_cache cfg")
    case True
    note w = repository_impl_with_cache [OF free True]
    have "\<not> sublist ?without (text_lines ?repo)"
    proof
      assume "sublist ?without (text_lines ?repo)"
      then have "set ?without \<subseteq> set (text_lines ?repo)"
        by (rule set_mono_sublist)
      then have "has_line (''    const dtos = await this.remoteDataSource.fetch''
              @ pluralize (lower (entity_name cfg)) @ ''();'') ?repo"
        by (simp add: has_line_def)
      with w(3) show False by simp
    qed
    moreover from w(1) have "set ?with \<subseteq> set (text_lines ?repo)"
      by (rule set_mono_sublist)
    then have "has_line ''    try {'' ?repo" "has_line ''    } catch (error) {'' ?repo"
      "has_line (''      const cachedDtos = await this.localDataSource.getCached''
              @ pluralize (lower (entity_name cfg)) @ ''();'') ?repo"
      by (simp_all add: has_line_def)
    ultimately show ?thesis using True w(1) w(2) by simp
  next
    case False
    note wo = repository_impl_without_cache [OF free False]
    have "\<not> sublist ?with (text_lines ?repo)"
    proof
      assume "sublist ?with (text_lines ?repo)"
      then have "set ?with \<subseteq> set (text_lines ?repo)"
        by (rule set_mono_sublist)
      then have "has_line ''    try {'' ?repo"
        by (simp add: has_line_def)
      with wo(2) show False by simp
    qed
    then show ?thesis using False wo by simp
  qed
  with local_datasource_paths [of cfg] repository_impl_file [of cfg] show ?thesis by blast
qed

theorem cache_files_and_fallback_witness:
  "CHR ''\<newline>'' \<notin> set (entity_name (user_schema ''clean'' True))
   \<and> has_line ''    } catch (error) {'' (generate_repository_impl (init (user_schema ''clean'' True)))
   \<and> \<not> has_line ''    } catch (error) {'' (generate_repository_impl (init (user_schema ''clean'' False)))
   \<and> ''data/datasources/IUserLocalDataSource.ets''
        \<in> fst ` set (generate_all (init (user_schema ''clean'' True)))
   \<and> ''data/datasources/IUserLocalDataSource.ets''
        \<notin> fst ` set (generate_all (init (user_schema ''clean'' False)))
   \<and> ''data/datasources/IUserLocalDataSource.ets''
        \<notin> fst ` set (generate_all (init (user_schema ''mvvm'' True)))
   \<and> map_of (generate_all (init (user_schema ''clean'' True)))
        ''data/repositories/UserRepositoryImpl.ets''
       = Some (generate_repository_impl (init (user_schema ''clean'' True)))"
  using cache_files_and_fallback [of "user_schema ''clean'' True"]
    cache_files_and_fallback [of "user_schema ''clean'' False"]
    cache_files_and_fallback [of "user_schema ''mvvm'' True"]
  by simp

section \<open>The base path of the remote access\<close>

lemma category_schema_simps [simp]:
  "entity_name (category_schema a) = ''Category''"
  "include_cache (category_schema a) = False"
  "architecture (category_schema a) = a"
  by (simp_all add: category_schema_def)

lemma endpoint_lines:
  assumes "CHR ''\<newline>'' \<notin> set (entity_name cfg)"
  shows "has_line (''  private endpoint: string = '' @ [CHR 0x27] @ ''/''
                     @ lower (entity_name cfg) @ ''s'' @ [CHR 0x27] @ '';'')
           (generate_remote_datasource_impl (init cfg))"
    and "has_line (''  private endpoint: string = '' @ [CHR 0x27] @ ''/''
                     @ lower (entity_name cfg) @ ''s'' @ [CHR 0x27] @ '';'')
           (generate_simple_repository (init cfg))"
  using assms nl_pluralize [of "lower (entity_name cfg)"]
    apply (simp_all add: text_lines_def has_line_def generate_remote_datasource_impl_def
        generate_simple_repository_def split_lines nl_lower
        del: split.simps join.simps append_Cons append_Nil append_assoc)
  done

lemma no_other_endpoint_line:
  assumes "CHR ''\<newline>'' \<notin> set (entity_name cfg)"
    and "has_line (''  private endpoint: string = '' @ [CHR 0x27] @ rest) (generate_remote_datasource_impl (init cfg))
       \<or> has_line (''  private endpoint: string = '' @ [CHR 0x27] @ rest) (generate_simple_repository (init cfg))"
  shows "rest = ''/'' @ lower (entity_name cfg) @ ''s'' @ [CHR 0x27] @ '';''"
  using assms nl_pluralize [of "lower (entity_name cfg)"]
    apply (simp_all add: text_lines_def has_line_def generate_remote_datasource_impl_def
        generate_simple_repository_def split_lines nl_lower
        del: split.simps join.simps append_Cons append_Nil append_assoc)
  apply auto
  done

text \<open>
  Claim C6 says that the base path of the generated remote access is \<open>/\<close> followed
  by the plural of the lower-cased entity name, so that \<open>Category\<close> gives
  \<open>/categories\<close>. The code writes \<open>/\<close>, the lower form and the letter \<open>s\<close>:
  for \<open>Category\<close>, whose derived plural is \<open>categories\<close>, the endpoint line of the
  remote data source (clean architecture) and of the repository (MVVM) names
  \<open>/categorys\<close>, and no line names \<open>/categories\<close>.
\<close>

theorem category_endpoint:
  "entity_name_plural (init (category_schema ''clean'')) = ''categories''
   \<and> has_line (''  private endpoint: string = '' @ [CHR 0x27] @ ''/categorys'' @ [CHR 0x27] @ '';'')
        (generate_remote_datasource_impl (init (category_schema ''clean'')))
   \<and> \<not> has_line (''  private endpoint: string = '' @ [CHR 0x27] @ ''/categories'' @ [CHR 0x27] @ '';'')
        (generate_remote_datasource_impl (init (category_schema ''clean'')))
   \<and> has_line (''  private endpoint: string = '' @ [CHR 0x27] @ ''/categorys'' @ [CHR 0x27] @ '';'')
        (generate_simple_repository (init (category_schema ''mvvm'')))
   \<and> \<not> has_line (''  private endpoint: string = '' @ [CHR 0x27] @ ''/categories'' @ [CHR 0x27] @ '';'')
        (generate_simple_repository (init (category_schema ''mvvm'')))"
proof -
  have free: "CHR ''\<newline>'' \<notin> set (entity_name (category_schema a))" for a
    by simp
  have "\<not> has_line (''  private endpoint: string = '' @ [CHR 0x27] @ ''/categories'' @ [CHR 0x27] @ '';'')
        (generate_remote_datasource_impl (init (category_schema ''clean'')))"
    using no_other_endpoint_line [OF free, of "''/categories'' @ [CHR 0x27] @ '';''" "''clean''"]
    by (auto simp add: lower_examples)
  moreover have "\<not> has_line (''  private endpoint: string = '' @ [CHR 0x27] @ ''/categories'' @ [CHR 0x27] @ '';'')
        (generate_simple_repository (init (category_schema ''mvvm'')))"
    using no_other_endpoint_line [OF free, of "''/categories'' @ [CHR 0x27] @ '';''" "''mvvm''"]
    by (auto simp add: lower_examples)
  ultimately show ?thesis
    using endpoint_lines [OF free, of "''clean''"] endpoint_lines [OF free, of "''mvvm''"]
    by (simp add: lower_examples pluralize_examples)
qed

section \<open>The header comment of a generated file\<close>

lemma first_line_banner:
  "hd (text_lines (generate_entity self)) = banner (''domain/entities/'' @ entity_name (config self) @ ''.ets'')"
  if "CHR ''\<newline>'' \<notin> set (entity_name (config self))"
  using that
  by (simp add: text_lines_def banner_def generate_entity_def Let_def hd_split_join split_no_sep
      del: split.simps join.simps)

lemma first_line_page:
  "hd (text_lines (generate_page self)) = banner (''presentation/views/pages/'' @ entity_name (config self) @ ''Page.ets'')"
  if "CHR ''\<newline>'' \<notin> set (entity_name (config self))"
  using that
  by (simp add: text_lines_def banner_def generate_page_def Let_def hd_split_join split_no_sep
      del: split.simps join.simps)

lemma first_line_simple:
  "hd (text_lines (generate_simple_repository self)) = banner (''data/repositories/'' @ entity_name (config self) @ ''Repository.ets'')"
  "hd (text_lines (generate_simple_viewmodel self)) = banner (''viewmodels/'' @ entity_name (config self) @ ''ViewModel.ets'')"
  if "CHR ''\<newline>'' \<notin> set (entity_name (config self))"
  using that
  by (simp_all add: text_lines_def banner_def generate_simple_repository_def generate_simple_viewmodel_def Let_def hd_split_join split_no_sep
      del: split.simps join.simps)

text \<open>Under clean architecture every text of the file map begins with the header
  of its own path, for an entity name without a newline.\<close>

lemma list_all_update:
  "list_all P al \<Longrightarrow> P (k, v) \<Longrightarrow> list_all P (AList.update k v al)"
  by (induction al) auto

lemma clean_first_lines:
  assumes "CHR ''\<newline>'' \<notin> set (entity_name (config self))"
    and "CHR ''\<newline>'' \<notin> set (entity_name_lower self)"
    and "CHR ''\<newline>'' \<notin> set (entity_name_plural self)"
  shows "hd (text_lines (generate_repository_interface self)) = banner (''domain/repositories/I'' @ entity_name (config self) @ ''Repository.ets'')"
    and "hd (text_lines (generate_get_all_usecase self)) = banner (''domain/usecases/'' @ entity_name_lower self @ ''/Get'' @ entity_name_plural self @ ''UseCase.ets'')"
    and "hd (text_lines (generate_get_by_id_usecase self)) = banner (''domain/usecases/'' @ entity_name_lower self @ ''/Get'' @ entity_name (config self) @ ''ByIdUseCase.ets'')"
    and "hd (text_lines (generate_create_usecase self)) = banner (''domain/usecases/'' @ entity_name_lower self @ ''/Create'' @ entity_name (config self) @ ''UseCase.ets'')"
    and "hd (text_lines (generate_update_usecase self)) = banner (''domain/usecases/'' @ entity_name_lower self @ ''/Update'' @ entity_name (config self) @ ''UseCase.ets'')"
    and "hd (text_lines (generate_delete_usecase self)) = banner (''domain/usecases/'' @ entity_name_lower self @ ''/Delete'' @ entity_name (config self) @ ''UseCase.ets'')"
    and "hd (text_lines (generate_model self)) = banner (''data/models/'' @ entity_name (config self) @ ''Model.ets'')"
    and "hd (text_lines (generate_remote_datasource_interface self)) = banner (''data/datasources/I'' @ entity_name (config self) @ ''RemoteDataSource.ets'')"
    and "hd (text_lines (generate_remote_datasource_impl self)) = banner (''data/datasources/'' @ entity_name (config self) @ ''RemoteDataSourceImpl.ets'')"
    and "hd (text_lines (generate_local_datasource_interface self)) = banner (''data/datasources/I'' @ entity_name (config self) @ ''LocalDataSource.ets'')"
    and "hd (text_lines (generate_local_datasource_impl self)) = banner (''data/datasources/'' @ entity_name (config self) @ ''LocalDataSourceImpl.ets'')"
    and "hd (text_lines (generate_repository_impl self)) = banner (''data/repositories/'' @ entity_name (config self) @ ''RepositoryImpl.ets'')"
    and "hd (text_lines (generate_viewmodel self)) = banner (''presentation/viewmodels/'' @ entity_name (config self) @ ''ViewModel.ets'')"
  using assms
  by (simp_all add: text_lines_def banner_def Let_def hd_split_join split_no_sep
      generate_repository_interface_def generate_get_all_usecase_def generate_get_by_id_usecase_def
      generate_create_usecase_def generate_update_usecase_def generate_delete_usecase_def
      generate_model_def generate_remote_datasource_interface_def generate_remote_datasource_impl_def
      generate_local_datasource_interface_def generate_local_datasource_impl_def
      generate_repository_impl_def generate_viewmodel_def
      del: split.simps join.simps)


lemma clean_banners:
  assumes "architecture cfg = ''clean''" and "CHR ''\<newline>'' \<notin> set (entity_name cfg)"
  shows "list_all (\<lambda>(path, t). hd (text_lines t) = banner path) (generate_all (init cfg))"
proof -
  have free: "CHR ''\<newline>'' \<notin> set (entity_name (config (init cfg)))"
    "CHR ''\<newline>'' \<notin> set (entity_name_lower (init cfg))"
    "CHR ''\<newline>'' \<notin> set (entity_name_plural (init cfg))"
    using assms(2) nl_pluralize [of "lower (entity_name cfg)"] by (simp_all add: nl_lower)
  note lines = clean_first_lines [OF free] first_line_banner [OF free(1)] first_line_page [OF free(1)]
  show ?thesis
    using assms(1) lines
    by (simp add: generate_all_def Let_def list_all_update del: AList.update.simps)
qed

text \<open>
  Claim C9 says that every text of the file map begins with a header comment that
  names the path the text is emitted at. For the \<open>User\<close> schema under MVVM the
  model is emitted at \<open>data/models/User.ets\<close> and begins with the header of
  \<open>domain/entities/User.ets\<close>, and the page is emitted at
  \<open>views/pages/UserPage.ets\<close> and begins with the header of
  \<open>presentation/views/pages/UserPage.ets\<close>: both reuse the generator of clean
  architecture. The repository and the view-model of the same map do begin with the
  header of their own path.
\<close>

theorem mvvm_banners:
  "map_of (generate_all (init (user_schema ''mvvm'' False))) ''data/models/User.ets''
     = Some (generate_simple_model (init (user_schema ''mvvm'' False)))
   \<and> hd (text_lines (generate_simple_model (init (user_schema ''mvvm'' False))))
     = banner ''domain/entities/User.ets''
   \<and> banner ''domain/entities/User.ets'' \<noteq> banner ''data/models/User.ets''
   \<and> map_of (generate_all (init (user_schema ''mvvm'' False))) ''views/pages/UserPage.ets''
     = Some (generate_simple_page (init (user_schema ''mvvm'' False)))
   \<and> hd (text_lines (generate_simple_page (init (user_schema ''mvvm'' False))))
     = banner ''presentation/views/pages/UserPage.ets''
   \<and> banner ''presentation/views/pages/UserPage.ets'' \<noteq> banner ''views/pages/UserPage.ets''
   \<and> map_of (generate_all (init (user_schema ''mvvm'' False))) ''data/repositories/UserRepository.ets''
     = Some (generate_simple_repository (init (user_schema ''mvvm'' False)))
   \<and> hd (text_lines (generate_simple_repository (init (user_schema ''mvvm'' False))))
     = banner ''data/repositories/UserRepository.ets''
   \<and> map_of (generate_all (init (user_schema ''mvvm'' False))) ''viewmodels/UserViewModel.ets''
     = Some (generate_simple_viewmodel (init (user_schema ''mvvm'' False)))
   \<and> hd (text_lines (generate_simple_viewmodel (init (user_schema ''mvvm'' False))))
     = banner ''viewmodels/UserViewModel.ets''"
proof -
  have files: "generate_all (init (user_schema ''mvvm'' False)) =
     [(''data/models/User.ets'', generate_simple_model (init (user_schema ''mvvm'' False))),
      (''data/repositories/UserRepository.ets'', generate_simple_repository (init (user_schema ''mvvm'' False))),
      (''viewmodels/UserViewModel.ets'', generate_simple_viewmodel (init (user_schema ''mvvm'' False))),
      (''views/pages/UserPage.ets'', generate_simple_page (init (user_schema ''mvvm'' False)))]"
    by (simp add: generate_all_def Let_def)
  have free: "CHR ''\<newline>'' \<notin> set (entity_name (config (init (user_schema ''mvvm'' False))))"
    by simp
  show ?thesis
    unfolding files
    using first_line_banner [OF free] first_line_page [OF free] first_line_simple [OF free]
    by (simp add: generate_simple_model_def generate_simple_page_def banner_def)
qed

section \<open>The identifier property\<close>

lemma parse_id_last:
  "parse_properties ''name:string,id:string?'' =
     [\<lparr>name = ''name'', type = ''string'', optional = False, validation = []\<rparr>,
      \<lparr>name = ''id'', type = ''string'', optional = True, validation = []\<rparr>]"
  by code_simp

lemma parse_no_id:
  "parse_properties ''name:string, email:string?'' =
     [\<lparr>name = ''name'', type = ''string'', optional = False, validation = []\<rparr>,
      \<lparr>name = ''email'', type = ''string'', optional = True, validation = []\<rparr>]"
  by code_simp

text \<open>
  Claim C8, as stated: whatever property list the caller supplies, the schema passed
  to generation has the property \<open>id\<close> exactly once, first, typed \<open>number\<close> and
  not optional. For \<open>--props "name:string,id:string?"\<close> the schema has \<open>id\<close>
  second, typed \<open>string\<close> and optional.
\<close>

theorem supplied_id_counterexample:
  "properties (parse_config args_id_last) =
     [\<lparr>name = ''name'', type = ''string'', optional = False, validation = []\<rparr>,
      \<lparr>name = ''id'', type = ''string'', optional = True, validation = []\<rparr>]
   \<and> name (hd (properties (parse_config args_id_last))) \<noteq> ''id''"
  by (simp add: parse_config_def args_id_last_def parse_id_last)

text \<open>
  Claim C8, amended. When no parsed property is named \<open>id\<close>, \<open>_parse_config\<close>
  puts the property \<open>id\<close>, typed \<open>number\<close> and not optional, in front of the
  parsed list, and the schema then holds \<open>id\<close> exactly once. When a parsed property
  is named \<open>id\<close>, the parsed list is passed on unchanged. In both cases the
  constructor default of a property named \<open>id\<close> is \<open>= 0\<close>, whatever its type and
  its optional flag.
\<close>

theorem synthesized_id:
  "(\<not> list_ex (\<lambda>p. name p = ''id'') (parse_properties (props args)) \<longrightarrow>
      properties (parse_config args) =
        \<lparr>name = ''id'', type = ''number'', optional = False, validation = []\<rparr>
          # parse_properties (props args)
      \<and> length (filter (\<lambda>p. name p = ''id'') (properties (parse_config args))) = 1)
   \<and> (list_ex (\<lambda>p. name p = ''id'') (parse_properties (props args)) \<longrightarrow>
      properties (parse_config args) = parse_properties (props args))
   \<and> (name p = ''id'' \<longrightarrow> get_default_value p = '' = 0'')"
proof -
  have "filter (\<lambda>p. name p = ''id'') ps = []" if "\<not> list_ex (\<lambda>p. name p = ''id'') ps"
    for ps :: "PropertyConfig list"
    using that by (induction ps) auto
  then show ?thesis
    by (simp add: parse_config_def Let_def get_default_value_def)
qed

theorem synthesized_id_witness:
  "\<not> list_ex (\<lambda>p. name p = ''id'') (parse_properties (props args_no_id))
   \<and> properties (parse_config args_no_id) =
     [\<lparr>name = ''id'', type = ''number'', optional = False, validation = []\<rparr>,
      \<lparr>name = ''name'', type = ''string'', optional = False, validation = []\<rparr>,
      \<lparr>name = ''email'', type = ''string'', optional = True, validation = []\<rparr>]
   \<and> list_ex (\<lambda>p. name p = ''id'') (parse_properties (props args_id_last))
   \<and> properties (parse_config args_id_last) = parse_properties (props args_id_last)
   \<and> get_default_value \<lparr>name = ''id'', type = ''string'', optional = True, validation = []\<rparr> = '' = 0''"
  using synthesized_id [of args_no_id "\<lparr>name = ''id'', type = ''string'', optional = True, validation = []\<rparr>"]
    synthesized_id [of args_id_last]
  by (simp add: args_no_id_def args_id_last_def parse_no_id parse_id_last)

section \<open>Validation of optional properties\<close>

lemma foldl_append_concat:
  "foldl (\<lambda>acc x. acc @ f x) acc xs = acc @ concat (map f xs)"
  by (induction xs arbitrary: acc) simp_all

lemma foldl_checks:
  "foldl (\<lambda>validation_code prop.
            if validation prop = [] then validation_code
            else foldl (\<lambda>validation_code rule. validation_code @ validation_check prop rule)
                   validation_code (validation prop))
     acc ps
   = acc @ concat (map (\<lambda>prop. concat (map (validation_check prop) (validation prop))) ps)"
  by (induction ps arbitrary: acc) (simp_all add: foldl_append_concat)

lemma generate_validations_concat:
  "include_validation (config self) \<Longrightarrow>
   generate_validations self =
     ''private validate(): void {\<newline>''
     @ concat (map (\<lambda>prop. concat (map (validation_check prop) (validation prop)))
         (properties (config self)))
     @ ''  }''"
  by (simp add: generate_validations_def Let_def foldl_checks)

lemma validation_check_optional:
  "validation_check (prop\<lparr>optional := b\<rparr>) rule = validation_check prop rule"
  by (cases "rule_type rule") (simp_all add: validation_check_def)

lemma validation_check_optional_fun:
  "validation_check (prop\<lparr>optional := b\<rparr>) = validation_check prop"
  by (rule ext) (rule validation_check_optional)

lemma validation_check_type:
  "rule_type rule \<noteq> REQUIRED \<Longrightarrow>
   validation_check (prop\<lparr>type := t\<rparr>) rule = validation_check prop rule"
  by (cases "rule_type rule") (simp_all add: validation_check_def)

text \<open>
  Claim C10. With \<open>include_validation\<close> set, the text emitted for a rule of a
  property does not depend on the property's optional flag, and so neither does the
  whole \<open>validate()\<close> method, which is the opening line, the checks of every rule
  of every property in order, and the closing brace. The text of a rule other than
  \<open>REQUIRED\<close> does not depend on the property's type either, while that of
  \<open>REQUIRED\<close> does. The check of \<open>MIN_LENGTH\<close>, \<open>MAX_LENGTH\<close>, \<open>MIN\<close> and
  \<open>MAX\<close> starts with the comparison itself, and that of \<open>PATTERN\<close> with the
  pattern and its test: no guard against an undefined value comes first.
\<close>

theorem checks_ignore_optional:
  assumes "include_validation (config self)"
  shows "validation_check (prop\<lparr>optional := b\<rparr>) rule = validation_check prop rule
    \<and> generate_validations
          (self\<lparr>config := (config self)\<lparr>properties :=
             map (\<lambda>p. p\<lparr>optional := flag p\<rparr>) (properties (config self))\<rparr>\<rparr>)
        = generate_validations self
    \<and> generate_validations self =
        ''private validate(): void {\<newline>''
        @ concat (map (\<lambda>prop. concat (map (validation_check prop) (validation prop)))
            (properties (config self)))
        @ ''  }''
    \<and> (rule_type rule \<noteq> REQUIRED \<longrightarrow>
          validation_check (prop\<lparr>type := t\<rparr>) rule = validation_check prop rule)
    \<and> validation_check
          \<lparr>name = ''age'', type = ''string'', optional = True, validation = []\<rparr>
          \<lparr>rule_type = REQUIRED, rule_value = None, message = None\<rparr>
        \<noteq> validation_check
          \<lparr>name = ''age'', type = ''number'', optional = True, validation = []\<rparr>
          \<lparr>rule_type = REQUIRED, rule_value = None, message = None\<rparr>
    \<and> (rule_type rule = MIN_LENGTH \<longrightarrow>
          prefix (''    if (this.'' @ name prop @ ''.length < '' @ str_value (rule_value rule)
                    @ '') {\<newline>'')
            (validation_check prop rule))
    \<and> (rule_type rule = MAX_LENGTH \<longrightarrow>
          prefix (''    if (this.'' @ name prop @ ''.length > '' @ str_value (rule_value rule)
                    @ '') {\<newline>'')
            (validation_check prop rule))
    \<and> (rule_type rule = MIN_VALUE \<longrightarrow>
          prefix (''    if (this.'' @ name prop @ '' < '' @ str_value (rule_value rule)
                    @ '') {\<newline>'')
            (validation_check prop rule))
    \<and> (rule_type rule = MAX_VALUE \<longrightarrow>
          prefix (''    if (this.'' @ name prop @ '' > '' @ str_value (rule_value rule)
                    @ '') {\<newline>'')
            (validation_check prop rule))
    \<and> (rule_type rule = PATTERN \<longrightarrow>
          prefix (''    const pattern = new RegExp('' @ [CHR 0x27] @ str_value (rule_value rule)
                    @ [CHR 0x27] @ '');\<newline>''
                  @ ''    if (!pattern.test(this.'' @ name prop @ '')) {\<newline>'')
            (validation_check prop rule))"
proof -
  let ?self' = "self\<lparr>config := (config self)\<lparr>properties :=
             map (\<lambda>p. p\<lparr>optional := flag p\<rparr>) (properties (config self))\<rparr>\<rparr>"
  have "include_validation (config ?self')"
    using assms by simp
  then have "generate_validations ?self' = generate_validations self"
    using assms
    by (simp add: generate_validations_concat validation_check_optional_fun comp_def)
  moreover have "validation_check
          \<lparr>name = ''age'', type = ''string'', optional = True, validation = []\<rparr>
          \<lparr>rule_type = REQUIRED, rule_value = None, message = None\<rparr>
        \<noteq> validation_check
          \<lparr>name = ''age'', type = ''number'', optional = True, validation = []\<rparr>
          \<lparr>rule_type = REQUIRED, rule_value = None, message = None\<rparr>"
    by (simp add: validation_check_def)
  moreover have "rule_type rule = MIN_LENGTH \<longrightarrow>
          prefix (''    if (this.'' @ name prop @ ''.length < '' @ str_value (rule_value rule)
                    @ '') {\<newline>'')
            (validation_check prop rule)"
    by (simp add: validation_check_def prefix_def)
  moreover have "rule_type rule = MAX_LENGTH \<longrightarrow>
          prefix (''    if (this.'' @ name prop @ ''.length > '' @ str_value (rule_value rule)
                    @ '') {\<newline>'')
            (validation_check prop rule)"
    by (simp add: validation_check_def prefix_def)
  moreover have "rule_type rule = MIN_VALUE \<longrightarrow>
          prefix (''    if (this.'' @ name prop @ '' < '' @ str_value (rule_value rule)
                    @ '') {\<newline>'')
            (validation_check prop rule)"
    by (simp add: validation_check_def prefix_def)
  moreover have "rule_type rule = MAX_VALUE \<longrightarrow>
          prefix (''    if (this.'' @ name prop @ '' > '' @ str_value (rule_value rule)
                    @ '') {\<newline>'')
            (validation_check prop rule)"
    by (simp add: validation_check_def prefix_def)
  moreover have "rule_type rule = PATTERN \<longrightarrow>
          prefix (''    const pattern = new RegExp('' @ [CHR 0x27] @ str_value (rule_value rule)
                    @ [CHR 0x27] @ '');\<newline>''
                  @ ''    if (!pattern.test(this.'' @ name prop @ '')) {\<newline>'')
            (validation_check prop rule)"
    by (simp add: validation_check_def prefix_def)
  ultimately show ?thesis
    using assms validation_check_optional validation_check_type generate_validations_concat
    by simp
qed


lemma str_value_3: "str_value (Some (IntV 3)) = ''3''"
  by code_simp

theorem checks_ignore_optional_witness:
  "include_validation (config (init profile_schema))
   \<and> optional bio_property
   \<and> prefix ''    if (this.bio.length < 3) {\<newline>''
        (validation_check bio_property (hd (validation bio_property)))
   \<and> generate_validations (init profile_schema) =
        ''private validate(): void {\<newline>''
        @ ''    if (this.bio.length < 3) {\<newline>''
        @ ''      throw new Error('' @ [CHR 0x27] @ ''bio deve ter no m'' @ [CHR 0xED]
        @ ''nimo 3 caracteres'' @ [CHR 0x27] @ '');\<newline>''
        @ ''    }\<newline>''
        @ ''  }''"
proof -
  define r where "r = \<lparr>rule_type = MIN_LENGTH, rule_value = Some (IntV 3), message = None\<rparr>"
  have r_simps: "rule_type r = MIN_LENGTH" "rule_value r = Some (IntV 3)" "message r = None"
    by (simp_all add: r_def)
  have bio: "name bio_property = ''bio''" "validation bio_property = [r]"
    "optional bio_property"
    by (simp_all add: bio_property_def r_def)
  have on: "include_validation (config (init profile_schema))"
    by (simp add: profile_schema_def)
  have props: "properties (config (init profile_schema)) =
      [\<lparr>name = ''id'', type = ''number'', optional = False, validation = []\<rparr>, bio_property]"
    by (simp add: profile_schema_def)
  have check: "validation_check bio_property r =
        ''    if (this.bio.length < 3) {\<newline>''
        @ ''      throw new Error('' @ [CHR 0x27] @ ''bio deve ter no m'' @ [CHR 0xED]
        @ ''nimo 3 caracteres'' @ [CHR 0x27] @ '');\<newline>''
        @ ''    }\<newline>''"
    by (simp add: validation_check_def r_simps bio str_value_3 py_or_def)
  note facts = checks_ignore_optional [OF on, of True bio_property r]
  from facts have gv: "generate_validations (init profile_schema) =
        ''private validate(): void {\<newline>''
        @ concat (map (\<lambda>prop. concat (map (validation_check prop) (validation prop)))
            (properties (config (init profile_schema))))
        @ ''  }''"
    by blast
  from facts r_simps(1)
  have "prefix (''    if (this.'' @ name bio_property @ ''.length < ''
                  @ str_value (rule_value r) @ '') {\<newline>'')
          (validation_check bio_property r)"
    by blast
  then have pf: "prefix ''    if (this.bio.length < 3) {\<newline>''
      (validation_check bio_property (hd (validation bio_property)))"
    by (simp add: bio r_simps str_value_3)
  have "generate_validations (init profile_schema) =
        ''private validate(): void {\<newline>''
        @ ''    if (this.bio.length < 3) {\<newline>''
        @ ''      throw new Error('' @ [CHR 0x27] @ ''bio deve ter no m'' @ [CHR 0xED]
        @ ''nimo 3 caracteres'' @ [CHR 0x27] @ '');\<newline>''
        @ ''    }\<newline>''
        @ ''  }''"
    unfolding gv props by (simp add: bio check)
  with on bio(3) pf show ?thesis
    by blast
qed

section \<open>Determinism\<close>

subsection \<open>The fragments read the rendered form only\<close>

lemma rendered_property_simps [simp]:
  "name (rendered_property p) = name p"
  "type (rendered_property p) = type p"
  "optional (rendered_property p) = optional p"
  "validation (rendered_property p) = map rendered_rule (validation p)"
  by (simp_all add: rendered_property_def)

lemma rendered_config_simps [simp]:
  "entity_name (rendered_config c) = entity_name c"
  "include_cache (rendered_config c) = include_cache c"
  "include_validation (rendered_config c) = include_validation c"
  "architecture (rendered_config c) = architecture c"
  "properties (rendered_config c) = map rendered_property (properties c)"
  by (simp_all add: rendered_config_def)

lemma get_default_value_rendered [simp]:
  "get_default_value (rendered_property p) = get_default_value p"
  by (simp add: get_default_value_def)

lemma find_map_option: "find P (map f xs) = map_option f (find (P \<circ> f) xs)"
  by (induction xs) simp_all

lemma validation_check_rendered:
  "validation_check (rendered_property p) (rendered_rule r) = validation_check p r"
  by (cases "rule_type r")
     (simp_all add: validation_check_def rendered_rule_def str_value_def py_or_def
        split: option.splits)

lemma helpers_rendered:
  "generate_dto_properties (init (rendered_config c)) = generate_dto_properties (init c)"
  "generate_to_domain_mapping (init (rendered_config c)) = generate_to_domain_mapping (init c)"
  "generate_to_dto_mapping (init (rendered_config c)) = generate_to_dto_mapping (init c)"
  "get_create_params (init (rendered_config c)) = get_create_params (init c)"
  "get_create_args (init (rendered_config c)) = get_create_args (init c)"
  "get_entity_creation (init (rendered_config c)) = get_entity_creation (init c)"
  "generate_properties (init (rendered_config c)) = generate_properties (init c)"
  "generate_constructor_params (init (rendered_config c)) = generate_constructor_params (init c)"
  by (simp_all add: generate_dto_properties_def generate_to_domain_mapping_def
        generate_to_dto_mapping_def get_create_params_def get_create_args_def
        get_entity_creation_def generate_properties_def generate_constructor_params_def
        filter_map comp_def cong: if_cong)

lemma generate_validations_rendered:
  "generate_validations (init (rendered_config c)) = generate_validations (init c)"
  by (simp add: generate_validations_def Let_def foldl_checks comp_def validation_check_rendered)

lemma methods_rendered:
  "generate_copy_method (init (rendered_config c)) = generate_copy_method (init c)"
  "generate_to_json_method (init (rendered_config c)) = generate_to_json_method (init c)"
  "generate_from_json_method (init (rendered_config c)) = generate_from_json_method (init c)"
  by (simp_all add: generate_copy_method_def generate_to_json_method_def
        generate_from_json_method_def comp_def cong: if_cong)

lemmas fragments_rendered = helpers_rendered methods_rendered generate_validations_rendered

subsection \<open>So does every generator\<close>

lemma generate_entity_rendered:
  "generate_entity (init (rendered_config c)) = generate_entity (init c)"
  by (simp add: generate_entity_def fragments_rendered)

lemma generate_model_rendered:
  "generate_model (init (rendered_config c)) = generate_model (init c)"
  by (simp add: generate_model_def fragments_rendered)

lemma generate_create_usecase_rendered:
  "generate_create_usecase (init (rendered_config c)) = generate_create_usecase (init c)"
  by (simp add: generate_create_usecase_def fragments_rendered)

lemma generate_viewmodel_rendered:
  "generate_viewmodel (init (rendered_config c)) = generate_viewmodel (init c)"
  by (simp add: generate_viewmodel_def fragments_rendered)

lemma generate_page_rendered:
  "generate_page (init (rendered_config c)) = generate_page (init c)"
  by (simp add: generate_page_def find_map_option comp_def option.case_distrib option.map_comp
        split: option.splits)

lemma generators_without_properties_rendered:
  "generate_repository_interface (init (rendered_config c)) = generate_repository_interface (init c)"
  "generate_get_all_usecase (init (rendered_config c)) = generate_get_all_usecase (init c)"
  "generate_get_by_id_usecase (init (rendered_config c)) = generate_get_by_id_usecase (init c)"
  "generate_update_usecase (init (rendered_config c)) = generate_update_usecase (init c)"
  "generate_delete_usecase (init (rendered_config c)) = generate_delete_usecase (init c)"
  "generate_remote_datasource_interface (init (rendered_config c)) = generate_remote_datasource_interface (init c)"
  "generate_remote_datasource_impl (init (rendered_config c)) = generate_remote_datasource_impl (init c)"
  "generate_local_datasource_interface (init (rendered_config c)) = generate_local_datasource_interface (init c)"
  "generate_local_datasource_impl (init (rendered_config c)) = generate_local_datasource_impl (init c)"
  "generate_repository_impl (init (rendered_config c)) = generate_repository_impl (init c)"
  "generate_simple_repository (init (rendered_config c)) = generate_simple_repository (init c)"
  by (simp_all add: generate_repository_interface_def generate_get_all_usecase_def
       generate_get_by_id_usecase_def generate_update_usecase_def generate_delete_usecase_def
       generate_remote_datasource_interface_def generate_remote_datasource_impl_def
       generate_local_datasource_interface_def generate_local_datasource_impl_def
       generate_repository_impl_def generate_simple_repository_def
       cache_import_text_def cache_constructor_param_text_def cache_logic_with_cache_def
       cache_logic_without_cache_def)

lemma simple_generators_rendered:
  "generate_simple_model (init (rendered_config c)) = generate_simple_model (init c)"
  "generate_simple_page (init (rendered_config c)) = generate_simple_page (init c)"
  "generate_simple_viewmodel (init (rendered_config c)) = generate_simple_viewmodel (init c)"
  by (simp_all add: generate_simple_model_def generate_simple_page_def
       generate_entity_rendered generate_page_rendered
       generate_simple_viewmodel_def fragments_rendered)

lemma generate_all_rendered:
  "generate_all (init (rendered_config c)) = generate_all (init c)"
  by (simp add: generate_all_def Let_def generate_entity_rendered generate_model_rendered
        generate_create_usecase_rendered generate_viewmodel_rendered generate_page_rendered
        generators_without_properties_rendered simple_generators_rendered
        del: AList.update.simps cong: if_cong)

text \<open>
  Claim C1. Two invocations of \<open>generate_all\<close> on equal configurations give the same
  file map. \<open>generate_all\<close> is a function of the generator object, which \<open>init\<close>
  makes from the configuration: as in the source, it reads the configuration and
  nothing else (no clock, no random source, no file, no global), so for two equal
  configurations the two file maps are the same term. The theorem says more than
  that: the file map is determined by what the templates read of the configuration.
  Two configurations with the same rendered form, equal ones among them, give the
  same list of entries, hence the same set of paths and the same text at every path;
  and a configuration and its rendered form give the same file map. So a payload
  enters a text only as the text \<open>str\<close> gives for it, and a message only as
  \<open>or\<close> reads it.
\<close>

theorem generate_all_deterministic:
  assumes "rendered_config cfg1 = rendered_config cfg2"
  shows "generate_all (init cfg1) = generate_all (init cfg2)
         \<and> fst ` set (generate_all (init cfg1)) = fst ` set (generate_all (init cfg2))
         \<and> (\<forall>path. map_of (generate_all (init cfg1)) path
                     = map_of (generate_all (init cfg2)) path)
         \<and> generate_all (init (rendered_config cfg1)) = generate_all (init cfg1)"
proof -
  have "generate_all (init cfg1) = generate_all (init (rendered_config cfg1))"
    by (simp only: generate_all_rendered)
  also have "\<dots> = generate_all (init (rendered_config cfg2))"
    by (simp only: assms)
  also have "\<dots> = generate_all (init cfg2)"
    by (simp only: generate_all_rendered)
  finally have same: "generate_all (init cfg1) = generate_all (init cfg2)" .
  then show ?thesis
    by (simp only: generate_all_rendered) simp
qed

theorem generate_all_deterministic_witness:
  "profile_schema \<noteq> profile_text_schema
   \<and> rendered_config profile_schema = rendered_config profile_text_schema
   \<and> generate_all (init profile_schema) = generate_all (init profile_text_schema)"
proof -
  have differ: "profile_schema \<noteq> profile_text_schema"
    by (simp add: profile_schema_def profile_text_schema_def bio_property_def)
  have alike: "rendered_config profile_schema = rendered_config profile_text_schema"
    by code_simp
  from generate_all_deterministic [OF alike] differ alike show ?thesis
    by blast
qed

end
